theory Spec2Isabelle
  imports Complex_Main
begin

section \<open>Data model\<close>

text \<open>
  The billing engine of the water-management API (\<^verbatim>\<open>calculationService.ts\<close>) and the
  reopen route of \<^verbatim>\<open>routes/periods.ts\<close>, embedded over an explicit database state.

  JavaScript numbers are idealised as \<^typ>\<open>real\<close>: sums, products and quotients are exact,
  so a value that lies on a rounding boundary (\<^verbatim>\<open>Math.round\<close> of a product, the 0.01 mismatch
  threshold) can fall on the other side in double arithmetic. No statement below rests on
  such a value.
  The one place where the source depends on a non-number result is \<^verbatim>\<open>parseFloat\<close>, whose
  value may be \<^verbatim>\<open>NaN\<close>; parsed configuration values therefore have their own type.
\<close>

datatype PeriodStatus = OPEN | PENDING_RECEIPT | CALCULATING | CLOSED

datatype BillStatus = PENDING | SENT | PAID | OVERDUE

datatype UserRole = SUPER_ADMIN | ADMIN | EDITOR | ANALYST

datatype MeterType = WATER | OTHER_METER

datatype ChargeType = fixed | percentage

datatype jsnum = Num real | NaN

datatype error = Error string | HttpError string nat | StorageFailure

record ExtraCharge =
  ec_description :: string
  ec_amount :: real
  ec_type :: ChargeType

record BillData =
  unitId :: string
  unitName :: string
  blockName :: string
  residentName :: "string option"
  currentReading :: real
  previousReading :: real
  consumption :: real
  individualCost :: real
  commonAreaCost :: real
  totalCost :: real
  extraCharges :: "ExtraCharge list option"

record CalculationResult =
  totalIndividualConsumption :: real
  commonAreaConsumption :: real
  commonAreaCostPerUnit :: real
  bills :: "BillData list"
  anomalies :: "string list"

record WaterRates =
  basicRate :: real
  commonAreaRate :: "jsnum option"
  fixedCharge :: "jsnum option"
  minimumConsumption :: "jsnum option"

subsection \<open>Database rows\<close>

record period_row =
  p_id :: string
  p_condominiumId :: string
  p_status :: PeriodStatus
  p_totalVolume :: "real option"
  p_totalAmount :: "real option"
  p_endDate :: "int option"
  p_createdAt :: int

record block_row =
  b_id :: string
  b_condominiumId :: string
  b_name :: string

record unit_row =
  u_id :: string
  u_blockId :: string
  u_name :: string
  u_isActive :: bool
  u_resident :: "string option"

record meter_row =
  m_id :: string
  m_unitId :: string
  m_type :: MeterType
  m_isActive :: bool

record reading_row =
  r_meterId :: string
  r_periodId :: string
  r_value :: real
  r_createdAt :: int
  r_isValidated :: bool
  r_isAnomalous :: bool

record bill_row =
  bl_periodId :: string
  bl_unitId :: string
  bl_currentReading :: real
  bl_previousReading :: real
  bl_consumption :: real
  bl_individualCost :: real
  bl_commonAreaCost :: real
  bl_totalCost :: real
  bl_extraCharges :: "ExtraCharge list"
  bl_status :: BillStatus

record config_row =
  c_key :: string
  c_value :: string

record unit_calc_row =
  uc_periodId :: string
  uc_unitId :: string

record period_calc_row =
  pc_periodId :: string

record audit_row =
  a_userId :: string
  a_action :: string
  a_entity :: string
  a_entityId :: string

record db =
  periods :: "period_row list"
  blocks :: "block_row list"
  units :: "unit_row list"
  meters :: "meter_row list"
  readings :: "reading_row list"
  billTable :: "bill_row list"
  systemConfig :: "config_row list"
  unitCalculations :: "unit_calc_row list"
  periodCalculations :: "period_calc_row list"
  auditLog :: "audit_row list"

text \<open>
  The built-in conversions of the JavaScript runtime that the service calls:
  \<^verbatim>\<open>parseFloat\<close>, the number-to-string conversion of template literals and
  \<^verbatim>\<open>toFixed(2)\<close>. They are parameters of the model.
\<close>

record js =
  parseFloat :: "string \<Rightarrow> jsnum"
  numToString :: "real \<Rightarrow> string"
  toFixed2 :: "real \<Rightarrow> string"

subsection \<open>What the period query returns\<close>

record loaded_unit =
  lu_id :: string
  lu_name :: string
  lu_isActive :: bool
  lu_blockName :: string
  lu_residentName :: "string option"
  lu_meters :: "meter_row list"

record prev_reading =
  pr_value :: real
  pr_periodId :: string

section \<open>JavaScript helpers\<close>

text \<open>Truthiness of a possibly missing parsed number: missing, \<^verbatim>\<open>NaN\<close> and 0 are falsy.\<close>

fun truthy :: "jsnum option \<Rightarrow> bool" where
  "truthy None = False"
| "truthy (Some NaN) = False"
| "truthy (Some (Num x)) = (x \<noteq> 0)"

fun numval :: "jsnum option \<Rightarrow> real" where
  "numval (Some (Num x)) = x"
| "numval _ = 0"

text \<open>\<^verbatim>\<open>new Map(entries)\<close>: entries are inserted in order, a later key overwrites.\<close>

definition new_Map :: "('k \<times> 'v) list \<Rightarrow> ('k \<rightharpoonup> 'v)" where
  "new_Map entries = foldl (\<lambda>m (k, v). m(k \<mapsto> v)) Map.empty entries"

text \<open>\<^verbatim>\<open>Math.round\<close> rounds to the nearest integer, halves upwards.\<close>

definition Math_round :: "real \<Rightarrow> real" where
  "Math_round x = of_int \<lfloor>x + 1 / 2\<rfloor>"

text \<open>\<^verbatim>\<open>name || 'Unknown'\<close>: the empty string is falsy.\<close>

definition orUnknown :: "string \<Rightarrow> string" where
  "orUnknown s = (if s = [] then ''Unknown'' else s)"

section \<open>Rate resolver\<close>

definition rateKeys :: "string list" where
  "rateKeys = [''water_basic_rate'', ''water_common_area_rate'',
               ''water_fixed_charge'', ''water_minimum_consumption'']"

definition configMap :: "js \<Rightarrow> db \<Rightarrow> (string \<rightharpoonup> jsnum)" where
  "configMap env d =
     (let configs = filter (\<lambda>c. c_key c \<in> set rateKeys) (systemConfig d)
      in new_Map (map (\<lambda>c. (c_key c, parseFloat env (c_value c))) configs))"

text \<open>\<^verbatim>\<open>configMap.get('water_basic_rate') || 1.5\<close>: a falsy value gives the default.\<close>

definition getWaterRates :: "js \<Rightarrow> db \<Rightarrow> WaterRates" where
  "getWaterRates env d =
     \<lparr> basicRate = (if truthy (configMap env d ''water_basic_rate'')
                     then numval (configMap env d ''water_basic_rate'') else 1.5),
       commonAreaRate = configMap env d ''water_common_area_rate'',
       fixedCharge = configMap env d ''water_fixed_charge'',
       minimumConsumption = configMap env d ''water_minimum_consumption'' \<rparr>"

definition calculateIndividualCost :: "real \<Rightarrow> WaterRates \<Rightarrow> real" where
  "calculateIndividualCost cons rates =
     (let cost = cons * basicRate rates;
          cost = (if truthy (fixedCharge rates) then cost + numval (fixedCharge rates) else cost)
      in Math_round (cost * 100) / 100)"

text \<open>\<^verbatim>\<open>getExtraCharges\<close> is a placeholder in the source: it returns the empty array.\<close>

definition getExtraCharges :: "string \<Rightarrow> string \<Rightarrow> ExtraCharge list" where
  "getExtraCharges uid condominiumId = []"

section \<open>Previous readings\<close>

text \<open>
  The query of \<^verbatim>\<open>getPreviousReadings\<close>: readings of the given meters whose period belongs
  to the condominium and is CLOSED, ordered by \<^verbatim>\<open>createdAt\<close> descending, distinct on
  \<^verbatim>\<open>meterId\<close> (the first row of every meter in that order is kept). Rows with equal
  timestamps keep their table order.
\<close>

definition periodMatches :: "db \<Rightarrow> string \<Rightarrow> reading_row \<Rightarrow> bool" where
  "periodMatches d condominiumId r =
     (case find (\<lambda>p. p_id p = r_periodId r) (periods d) of
        None \<Rightarrow> False
      | Some p \<Rightarrow> p_condominiumId p = condominiumId \<and> p_status p = CLOSED)"

fun distinctOn :: "('a \<Rightarrow> 'k) \<Rightarrow> 'k list \<Rightarrow> 'a list \<Rightarrow> 'a list" where
  "distinctOn f seen [] = []"
| "distinctOn f seen (x # xs) =
     (if f x \<in> set seen then distinctOn f seen xs else x # distinctOn f (f x # seen) xs)"

definition previousReadingRows :: "db \<Rightarrow> string \<Rightarrow> string list \<Rightarrow> reading_row list" where
  "previousReadingRows d condominiumId meterIds =
     distinctOn r_meterId []
       (sort_key (\<lambda>r. - r_createdAt r)
          (filter (\<lambda>r. r_meterId r \<in> set meterIds \<and> periodMatches d condominiumId r)
             (readings d)))"

definition getPreviousReadings :: "db \<Rightarrow> string \<Rightarrow> string list \<Rightarrow> (string \<rightharpoonup> prev_reading)" where
  "getPreviousReadings d condominiumId meterIds =
     new_Map (map (\<lambda>r. (r_meterId r, \<lparr> pr_value = r_value r, pr_periodId = r_periodId r \<rparr>))
                (previousReadingRows d condominiumId meterIds))"

section \<open>Bill calculation\<close>

text \<open>The units the period query includes: active units of the condominium's blocks, each
  with its active water meters; then the filter and map of the service itself.\<close>

definition unitsOfBlock :: "db \<Rightarrow> block_row \<Rightarrow> loaded_unit list" where
  "unitsOfBlock d b =
     map (\<lambda>u. \<lparr> lu_id = u_id u, lu_name = u_name u, lu_isActive = u_isActive u,
                lu_blockName = b_name b, lu_residentName = u_resident u,
                lu_meters = filter (\<lambda>m. m_unitId m = u_id u \<and> m_isActive m \<and> m_type m = WATER)
                              (meters d) \<rparr>)
       (filter (\<lambda>u. u_blockId u = b_id b \<and> u_isActive u) (units d))"

definition activeUnits :: "db \<Rightarrow> string \<Rightarrow> loaded_unit list" where
  "activeUnits d condominiumId =
     concat (map (\<lambda>b. filter (\<lambda>u. lu_isActive u \<and> length (lu_meters u) > 0) (unitsOfBlock d b))
               (filter (\<lambda>b. b_condominiumId b = condominiumId) (blocks d)))"

text \<open>\<^verbatim>\<open>unit.meters[0]\<close>; only evaluated on units that passed \<^verbatim>\<open>meters.length > 0\<close>.\<close>

definition primaryMeter :: "loaded_unit \<Rightarrow> meter_row" where
  "primaryMeter u = hd (lu_meters u)"

record loop_state =
  ls_anomalies :: "string list"
  ls_bills :: "BillData list"
  ls_total :: real

definition missingMsg :: "loaded_unit \<Rightarrow> string" where
  "missingMsg u = ''Missing reading for unit '' @ lu_name u @ '' in block ''
                   @ orUnknown (lu_blockName u)"

definition replacementMsg :: "js \<Rightarrow> loaded_unit \<Rightarrow> real \<Rightarrow> real \<Rightarrow> string" where
  "replacementMsg env u previousValue cur =
     ''Meter replacement detected for unit '' @ lu_name u @ '': previous=''
       @ numToString env previousValue @ '', current='' @ numToString env cur"

text \<open>The consumption of one unit (lines 144 to 156): the delta, the current value on a
  negative delta, then the minimum-consumption floor.\<close>

definition unitConsumption :: "WaterRates \<Rightarrow> real \<Rightarrow> real \<Rightarrow> real" where
  "unitConsumption rates cur previousValue =
     (let c = cur - previousValue;
          c = (if c < 0 then cur else c)
      in if truthy (minimumConsumption rates) \<and> c < numval (minimumConsumption rates)
         then numval (minimumConsumption rates) else c)"

definition previousValueOf :: "(string \<rightharpoonup> prev_reading) \<Rightarrow> string \<Rightarrow> real" where
  "previousValueOf previousReadings mid =
     (case previousReadings mid of
        None \<Rightarrow> 0
      | Some pr \<Rightarrow> if pr_value pr = 0 then 0 else pr_value pr)"

text \<open>One iteration of the loop over the active units.\<close>

definition processUnit ::
  "js \<Rightarrow> reading_row list \<Rightarrow> (string \<rightharpoonup> prev_reading) \<Rightarrow> WaterRates
     \<Rightarrow> loop_state \<Rightarrow> loaded_unit \<Rightarrow> loop_state" where
  "processUnit env periodReadings previousReadings rates st u =
     (let meter = primaryMeter u in
      case find (\<lambda>r. r_meterId r = m_id meter) periodReadings of
        None \<Rightarrow> st\<lparr> ls_anomalies := ls_anomalies st @ [missingMsg u] \<rparr>
      | Some cr \<Rightarrow>
          let previousValue = previousValueOf previousReadings (m_id meter);
              anoms = (if r_value cr - previousValue < 0
                       then ls_anomalies st @ [replacementMsg env u previousValue (r_value cr)]
                       else ls_anomalies st);
              cons = unitConsumption rates (r_value cr) previousValue;
              billData = \<lparr> unitId = lu_id u, unitName = lu_name u,
                           blockName = orUnknown (lu_blockName u),
                           residentName = lu_residentName u,
                           currentReading = r_value cr, previousReading = previousValue,
                           consumption = cons,
                           individualCost = calculateIndividualCost cons rates,
                           commonAreaCost = 0, totalCost = 0, extraCharges = None \<rparr>
          in \<lparr> ls_anomalies = anoms, ls_bills = ls_bills st @ [billData],
               ls_total = ls_total st + cons \<rparr>)"

text \<open>The body of lines 191 to 200 for a given array of extra charges: the reduce reads
  \<^verbatim>\<open>bill.totalCost\<close>, which is assigned only after the reduce has finished. The service
  only ever passes the array of \<open>getExtraCharges\<close>, which is empty, so the branch with
  charges is not reached; over doubles its sum would also depend on the order of the
  additions.\<close>

definition applyExtraCharges :: "BillData \<Rightarrow> ExtraCharge list \<Rightarrow> BillData" where
  "applyExtraCharges bill charges =
     (if length charges > 0
      then let extraTotal = foldl (\<lambda>sum charge. sum +
                 (if ec_type charge = percentage
                  then totalCost bill * (ec_amount charge / 100)
                  else ec_amount charge)) 0 charges
           in bill\<lparr> extraCharges := Some charges, totalCost := totalCost bill + extraTotal \<rparr>
      else bill)"

definition applyCommonArea :: "real \<Rightarrow> string \<Rightarrow> BillData \<Rightarrow> BillData" where
  "applyCommonArea perUnit condominiumId bill =
     (let bill = bill\<lparr> commonAreaCost := perUnit \<rparr>;
          bill = bill\<lparr> totalCost := individualCost bill + commonAreaCost bill \<rparr>
      in applyExtraCharges bill (getExtraCharges (unitId bill) condominiumId))"

definition mismatchMsg :: "js \<Rightarrow> real \<Rightarrow> real \<Rightarrow> real \<Rightarrow> string" where
  "mismatchMsg env calculatedTotal receipt difference =
     ''Total calculation mismatch: calculated='' @ toFixed2 env calculatedTotal
       @ '', receipt='' @ toFixed2 env receipt @ '', difference='' @ toFixed2 env difference"

text \<open>The computation of \<^verbatim>\<open>calculatePeriodBills\<close> after its three guards, for receipt totals
  \<open>totVolume\<close> and \<open>totAmount\<close>.\<close>

definition runLoop ::
  "js \<Rightarrow> reading_row list \<Rightarrow> (string \<rightharpoonup> prev_reading) \<Rightarrow> WaterRates
     \<Rightarrow> loaded_unit list \<Rightarrow> loop_state" where
  "runLoop env periodReadings previousReadings rates us =
     foldl (processUnit env periodReadings previousReadings rates)
       \<lparr> ls_anomalies = [], ls_bills = [], ls_total = 0 \<rparr> us"

definition commonAreaTotalCostOf :: "real \<Rightarrow> BillData list \<Rightarrow> real" where
  "commonAreaTotalCostOf totAmount bs =
     max 0 (totAmount - foldl (\<lambda>sum bill. sum + individualCost bill) 0 bs)"

definition finishCalculation :: "js \<Rightarrow> string \<Rightarrow> real \<Rightarrow> real \<Rightarrow> loop_state \<Rightarrow> CalculationResult" where
  "finishCalculation env condominiumId totVolume totAmount st =
     (let commonAreaConsumption = max 0 (totVolume - ls_total st);
          commonAreaTotalCost = commonAreaTotalCostOf totAmount (ls_bills st);
          perUnit = (if length (ls_bills st) > 0
                     then commonAreaTotalCost / real (length (ls_bills st)) else 0);
          bs = map (applyCommonArea perUnit condominiumId) (ls_bills st);
          calculatedTotal = foldl (\<lambda>sum bill. sum + totalCost bill) 0 bs;
          difference = \<bar>calculatedTotal - totAmount\<bar>;
          anoms = (if difference > 0.01
                   then ls_anomalies st @ [mismatchMsg env calculatedTotal totAmount difference]
                   else ls_anomalies st)
      in \<lparr> totalIndividualConsumption = ls_total st,
           commonAreaConsumption = commonAreaConsumption,
           commonAreaCostPerUnit = perUnit,
           bills = bs, anomalies = anoms \<rparr>)"

definition periodReadingsOf :: "db \<Rightarrow> string \<Rightarrow> reading_row list" where
  "periodReadingsOf d periodId = filter (\<lambda>r. r_periodId r = periodId) (readings d)"

definition calculateLoaded :: "js \<Rightarrow> db \<Rightarrow> string \<Rightarrow> string \<Rightarrow> real \<Rightarrow> real \<Rightarrow> CalculationResult" where
  "calculateLoaded env d periodId condominiumId totVolume totAmount =
     (let waterRates = getWaterRates env d;
          us = activeUnits d condominiumId;
          previousReadings = getPreviousReadings d condominiumId
                               (map (\<lambda>u. m_id (primaryMeter u)) us);
          st = runLoop env (periodReadingsOf d periodId) previousReadings waterRates us
      in finishCalculation env condominiumId totVolume totAmount st)"

text \<open>\<^verbatim>\<open>!period.totalVolume\<close>: a missing total and the total 0 are falsy; every other number,
  a negative one included, is truthy.\<close>

definition calculatePeriodBills :: "js \<Rightarrow> db \<Rightarrow> string \<Rightarrow> error + CalculationResult" where
  "calculatePeriodBills env d periodId =
     (case find (\<lambda>p. p_id p = periodId) (periods d) of
        None \<Rightarrow> Inl (Error ''Period not found'')
      | Some period \<Rightarrow>
          if p_status period \<noteq> CALCULATING
          then Inl (Error ''Period is not ready for calculation'')
          else (case (p_totalVolume period, p_totalAmount period) of
                  (Some totVolume, Some totAmount) \<Rightarrow>
                    if totVolume = 0 \<or> totAmount = 0
                    then Inl (Error ''Period receipt data is incomplete'')
                    else Inr (calculateLoaded env d periodId (p_condominiumId period)
                                totVolume totAmount)
                | _ \<Rightarrow> Inl (Error ''Period receipt data is incomplete'')))"

section \<open>Receipt totals a period row can hold\<close>



section \<open>Pre-flight validation\<close>

record validation =
  isValid :: bool
  v_errors :: "string list"

fun statusName :: "PeriodStatus \<Rightarrow> string" where
  "statusName OPEN = ''OPEN''"
| "statusName PENDING_RECEIPT = ''PENDING_RECEIPT''"
| "statusName CALCULATING = ''CALCULATING''"
| "statusName CLOSED = ''CLOSED''"

fun join :: "string \<Rightarrow> string list \<Rightarrow> string" where
  "join sep [] = []"
| "join sep [x] = x"
| "join sep (x # y # ys) = x @ sep @ join sep (y # ys)"

definition nonPositive :: "real option \<Rightarrow> bool" where
  "nonPositive x = (case x of None \<Rightarrow> True | Some v \<Rightarrow> v = 0 \<or> v \<le> 0)"

definition validatePeriodForCalculation :: "js \<Rightarrow> db \<Rightarrow> string \<Rightarrow> validation" where
  "validatePeriodForCalculation env d periodId =
     (case find (\<lambda>p. p_id p = periodId) (periods d) of
        None \<Rightarrow> \<lparr> isValid = False, v_errors = [''Period not found''] \<rparr>
      | Some period \<Rightarrow>
          let e1 = (if p_status period \<noteq> CALCULATING
                    then [''Period status must be CALCULATING, current: ''
                            @ statusName (p_status period)] else []);
              e2 = (if nonPositive (p_totalVolume period)
                    then [''Total volume from receipt is required and must be positive''] else []);
              e3 = (if nonPositive (p_totalAmount period)
                    then [''Total amount from receipt is required and must be positive''] else []);
              us = activeUnits d (p_condominiumId period);
              rs = periodReadingsOf d periodId;
              missingReadings = filter (\<lambda>u. m_id (primaryMeter u) \<notin> r_meterId ` set rs) us;
              e4 = (if length missingReadings > 0
                    then [''Missing readings for '' @ numToString env (real (length missingReadings))
                            @ '' units: ''
                            @ join '', '' (map (\<lambda>u. orUnknown (lu_blockName u) @ ''-'' @ lu_name u)
                                             missingReadings)] else []);
              anomalousReadings = filter (\<lambda>r. r_isAnomalous r \<and> \<not> r_isValidated r) rs;
              e5 = (if length anomalousReadings > 0
                    then [numToString env (real (length anomalousReadings))
                            @ '' anomalous readings need validation''] else []);
              errors = e1 @ e2 @ e3 @ e4 @ e5
          in \<lparr> isValid = (length errors = 0), v_errors = errors \<rparr>)"

section \<open>Persistence\<close>

text \<open>
  The three storage calls of \<^verbatim>\<open>saveBills\<close> are awaited one after the other on the plain
  client. A storage call either takes effect or raises; \<open>fails\<close> says which calls raise. What
  a call has written stays written when a later call raises. Foreign keys of the bill table
  are not modelled: the bulk insert itself never raises in the model.
\<close>

datatype dbop = BillDeleteMany | BillCreateMany | PeriodUpdate

definition bill_deleteMany :: "string \<Rightarrow> db \<Rightarrow> db" where
  "bill_deleteMany periodId d =
     d\<lparr> billTable := filter (\<lambda>b. bl_periodId b \<noteq> periodId) (billTable d) \<rparr>"

definition bill_createMany :: "bill_row list \<Rightarrow> db \<Rightarrow> db" where
  "bill_createMany rows d = d\<lparr> billTable := billTable d @ rows \<rparr>"

definition period_update :: "string \<Rightarrow> (period_row \<Rightarrow> period_row) \<Rightarrow> db \<Rightarrow> error + db" where
  "period_update periodId f d =
     (if periodId \<in> p_id ` set (periods d)
      then Inr (d\<lparr> periods := map (\<lambda>p. if p_id p = periodId then f p else p) (periods d) \<rparr>)
      else Inl (Error ''Record to update not found''))"

definition billsData :: "string \<Rightarrow> CalculationResult \<Rightarrow> bill_row list" where
  "billsData periodId calculationResult =
     map (\<lambda>bill. \<lparr> bl_periodId = periodId, bl_unitId = unitId bill,
                    bl_currentReading = currentReading bill,
                    bl_previousReading = previousReading bill,
                    bl_consumption = consumption bill,
                    bl_individualCost = individualCost bill,
                    bl_commonAreaCost = commonAreaCost bill,
                    bl_totalCost = totalCost bill,
                    bl_extraCharges = (case extraCharges bill of None \<Rightarrow> [] | Some cs \<Rightarrow> cs),
                    bl_status = PENDING \<rparr>)
       (bills calculationResult)"

definition saveBills ::
  "(dbop \<Rightarrow> bool) \<Rightarrow> int \<Rightarrow> string \<Rightarrow> CalculationResult \<Rightarrow> db \<Rightarrow> error option \<times> db" where
  "saveBills fails now periodId calculationResult d =
     (if fails BillDeleteMany then (Some StorageFailure, d)
      else let d1 = bill_deleteMany periodId d in
        if fails BillCreateMany then (Some StorageFailure, d1)
        else let d2 = bill_createMany (billsData periodId calculationResult) d1 in
          if fails PeriodUpdate then (Some StorageFailure, d2)
          else (case period_update periodId
                       (\<lambda>p. p\<lparr> p_status := CLOSED, p_endDate := Some now \<rparr>) d2 of
                  Inl e \<Rightarrow> (Some e, d2)
                | Inr d3 \<Rightarrow> (None, d3)))"

section \<open>Reopening a period\<close>

text \<open>The handler of \<^verbatim>\<open>DELETE /:periodId/calculations\<close>. Its three writes run inside one
  \<^verbatim>\<open>prisma.$transaction\<close>; the audit entry is written after it. Of the request only the
  caller's role and id and the period id are read; of the audit entry the address and user
  agent columns are left out.\<close>

record request =
  rq_role :: UserRole
  rq_userId :: string
  rq_periodId :: string

definition deleteCalculations :: "request \<Rightarrow> db \<Rightarrow> error option \<times> db" where
  "deleteCalculations req d =
     (if rq_role req \<noteq> SUPER_ADMIN
      then (Some (HttpError ''Access denied. Only Super Admin can reopen periods.'' 403), d)
      else case find (\<lambda>p. p_id p = rq_periodId req) (periods d) of
        None \<Rightarrow> (Some (HttpError ''Period not found'' 404), d)
      | Some period \<Rightarrow>
          if p_status period \<noteq> CLOSED
          then (Some (HttpError ''Can only delete calculations from closed periods'' 400), d)
          else
            let d1 = d\<lparr> unitCalculations :=
                         filter (\<lambda>c. uc_periodId c \<noteq> rq_periodId req) (unitCalculations d) \<rparr>;
                d2 = d1\<lparr> periodCalculations :=
                         filter (\<lambda>c. pc_periodId c \<noteq> rq_periodId req) (periodCalculations d1) \<rparr>;
                d3 = d2\<lparr> periods := map (\<lambda>p. if p_id p = rq_periodId req
                                               then p\<lparr> p_status := PENDING_RECEIPT \<rparr> else p)
                                         (periods d2) \<rparr>;
                d4 = d3\<lparr> auditLog := auditLog d3 @
                         [\<lparr> a_userId = rq_userId req, a_action = ''DELETE'',
                            a_entity = ''PeriodCalculations'', a_entityId = rq_periodId req \<rparr>] \<rparr>
            in (None, d4))"

section \<open>Views of the loop used in the statements\<close>

text \<open>What one iteration of the loop contributes, read off \<open>processUnit\<close> on the empty
  state: the bills (none or one) and the anomaly messages of a unit.\<close>

definition unitBills ::
  "js \<Rightarrow> reading_row list \<Rightarrow> (string \<rightharpoonup> prev_reading) \<Rightarrow> WaterRates \<Rightarrow> loaded_unit
     \<Rightarrow> BillData list" where
  "unitBills env rs prev rates u =
     ls_bills (processUnit env rs prev rates \<lparr> ls_anomalies = [], ls_bills = [], ls_total = 0 \<rparr> u)"

definition unitAnomalies ::
  "js \<Rightarrow> reading_row list \<Rightarrow> (string \<rightharpoonup> prev_reading) \<Rightarrow> WaterRates \<Rightarrow> loaded_unit
     \<Rightarrow> string list" where
  "unitAnomalies env rs prev rates u =
     ls_anomalies (processUnit env rs prev rates \<lparr> ls_anomalies = [], ls_bills = [], ls_total = 0 \<rparr> u)"

definition hasReading :: "reading_row list \<Rightarrow> loaded_unit \<Rightarrow> bool" where
  "hasReading rs u = (find (\<lambda>r. r_meterId r = m_id (primaryMeter u)) rs \<noteq> None)"

text \<open>The database without the unit rows of a given id.\<close>

definition withoutUnit :: "string \<Rightarrow> db \<Rightarrow> db" where
  "withoutUnit uid d = d\<lparr> units := filter (\<lambda>x. u_id x \<noteq> uid) (units d) \<rparr>"

section \<open>The wording of the specification, where the code differs\<close>


text \<open>The previous value as the specification words it: the most recent CLOSED period of
  the condominium (latest \<^verbatim>\<open>createdAt\<close>, as the \<^verbatim>\<open>previous-readings\<close> route orders periods),
  then the most recent reading of the meter in that period, and zero when there is none.\<close>

definition spec_mostRecentClosedPeriod :: "db \<Rightarrow> string \<Rightarrow> period_row option" where
  "spec_mostRecentClosedPeriod d condominiumId =
     (case sort_key (\<lambda>p. - p_createdAt p)
             (filter (\<lambda>p. p_condominiumId p = condominiumId \<and> p_status p = CLOSED) (periods d)) of
        [] \<Rightarrow> None
      | p # _ \<Rightarrow> Some p)"

definition spec_previousValue :: "db \<Rightarrow> string \<Rightarrow> string \<Rightarrow> real" where
  "spec_previousValue d condominiumId meterId =
     (case spec_mostRecentClosedPeriod d condominiumId of
        None \<Rightarrow> 0
      | Some p \<Rightarrow>
          (case sort_key (\<lambda>r. - r_createdAt r)
                  (filter (\<lambda>r. r_meterId r = meterId \<and> r_periodId r = p_id p) (readings d)) of
             [] \<Rightarrow> 0
           | r # _ \<Rightarrow> r_value r))"

section \<open>Example data\<close>

text \<open>A small condominium used to run the definitions: one block, a closed period and the
  period being calculated, units with one water meter each. The configuration rows and the readings vary
  between examples. The runtime conversions are fixed on the few strings and numbers the
  examples use.\<close>

definition demo_js :: js where
  "demo_js = \<lparr> parseFloat = (\<lambda>s. if s = ''0'' then Num 0 else if s = ''1.5'' then Num 1.5
                               else if s = ''5'' then Num 5 else if s = ''20'' then Num 20 else NaN),
               numToString = (\<lambda>x. if x = 500 then ''500'' else if x = 10 then ''10'' else ''?''),
               toFixed2 = (\<lambda>x. ''?.??'') \<rparr>"

definition demo_db :: "config_row list \<Rightarrow> reading_row list \<Rightarrow> db" where
  "demo_db cfgs rs =
     \<lparr> periods = [\<lparr> p_id = ''p1'', p_condominiumId = ''c1'', p_status = CLOSED,
                     p_totalVolume = Some 20, p_totalAmount = Some 40,
                     p_endDate = Some 100, p_createdAt = 1 \<rparr>,
                   \<lparr> p_id = ''p2'', p_condominiumId = ''c1'', p_status = CALCULATING,
                     p_totalVolume = Some 25, p_totalAmount = Some 50,
                     p_endDate = None, p_createdAt = 101 \<rparr>],
       blocks = [\<lparr> b_id = ''b1'', b_condominiumId = ''c1'', b_name = ''A'' \<rparr>],
       units = [\<lparr> u_id = ''u1'', u_blockId = ''b1'', u_name = ''101'', u_isActive = True,
                   u_resident = None \<rparr>,
                 \<lparr> u_id = ''u2'', u_blockId = ''b1'', u_name = ''102'', u_isActive = True,
                   u_resident = None \<rparr>],
       meters = [\<lparr> m_id = ''m1'', m_unitId = ''u1'', m_type = WATER, m_isActive = True \<rparr>,
                 \<lparr> m_id = ''m2'', m_unitId = ''u2'', m_type = WATER, m_isActive = True \<rparr>],
       readings = rs,
       billTable = [], systemConfig = cfgs, unitCalculations = [], periodCalculations = [],
       auditLog = [] \<rparr>"

definition rd :: "string \<Rightarrow> string \<Rightarrow> real \<Rightarrow> int \<Rightarrow> reading_row" where
  "rd m p v t = \<lparr> r_meterId = m, r_periodId = p, r_value = v, r_createdAt = t,
                  r_isValidated = True, r_isAnomalous = False \<rparr>"

definition cfg :: "string \<Rightarrow> string \<Rightarrow> config_row" where
  "cfg k v = \<lparr> c_key = k, c_value = v \<rparr>"

definition demo_readings :: "reading_row list" where
  "demo_readings = [rd ''m1'' ''p1'' 100 10, rd ''m2'' ''p1'' 50 11,
                    rd ''m1'' ''p2'' 115 110, rd ''m2'' ''p2'' 54 111]"

definition skewed_readings :: "reading_row list" where
  "skewed_readings = [rd ''m1'' ''p1'' 100 10, rd ''m2'' ''p1'' 50 11,
                      rd ''m1'' ''p2'' 200 110, rd ''m2'' ''p2'' 54 111]"

definition five_units_db :: db where
  "five_units_db =
     \<lparr> periods = [\<lparr> p_id = ''p2'', p_condominiumId = ''c1'', p_status = CALCULATING,
                     p_totalVolume = Some 100, p_totalAmount = Some 150,
                     p_endDate = None, p_createdAt = 101 \<rparr>],
       blocks = [\<lparr> b_id = ''b1'', b_condominiumId = ''c1'', b_name = ''A'' \<rparr>],
       units = map (\<lambda>n. \<lparr> u_id = ''u'' @ n, u_blockId = ''b1'', u_name = ''10'' @ n,
                           u_isActive = True, u_resident = None \<rparr>)
                 [''1'', ''2'', ''3'', ''4'', ''5''],
       meters = map (\<lambda>n. \<lparr> m_id = ''m'' @ n, m_unitId = ''u'' @ n, m_type = WATER,
                            m_isActive = True \<rparr>)
                  [''1'', ''2'', ''3'', ''4'', ''5''],
       readings = [rd ''m1'' ''p2'' 10 110, rd ''m2'' ''p2'' 20 111, rd ''m3'' ''p2'' 30 112,
                   rd ''m4'' ''p2'' 15 113, rd ''m5'' ''p2'' 5 114],
       billTable = [], systemConfig = [], unitCalculations = [], periodCalculations = [],
       auditLog = [] \<rparr>"

definition base_bill :: "real \<Rightarrow> real \<Rightarrow> BillData" where
  "base_bill ind common =
     \<lparr> unitId = ''u1'', unitName = ''101'', blockName = ''A'', residentName = None,
       currentReading = 115, previousReading = 100, consumption = 15,
       individualCost = ind, commonAreaCost = common, totalCost = ind + common,
       extraCharges = None \<rparr>"


definition old_bill :: "string \<Rightarrow> string \<Rightarrow> bill_row" where
  "old_bill pid uid =
     \<lparr> bl_periodId = pid, bl_unitId = uid, bl_currentReading = 110, bl_previousReading = 100,
       bl_consumption = 10, bl_individualCost = 15, bl_commonAreaCost = 5, bl_totalCost = 20,
       bl_extraCharges = [], bl_status = PENDING \<rparr>"

definition recalculated_db :: db where
  "recalculated_db = (demo_db [] demo_readings)\<lparr> billTable := [old_bill ''p2'' ''u1''] \<rparr>"

definition new_result :: CalculationResult where
  "new_result = \<lparr> totalIndividualConsumption = 15, commonAreaConsumption = 10,
                  commonAreaCostPerUnit = 27.5, bills = [base_bill 22.5 27.5], anomalies = [] \<rparr>"

definition closed_db :: db where
  "closed_db = (demo_db [] demo_readings)\<lparr>
       billTable := [old_bill ''p1'' ''u1''],
       unitCalculations := [\<lparr> uc_periodId = ''p1'', uc_unitId = ''u1'' \<rparr>],
       periodCalculations := [\<lparr> pc_periodId = ''p1'' \<rparr>] \<rparr>"

definition reopen_request :: "string \<Rightarrow> request" where
  "reopen_request pid = \<lparr> rq_role = SUPER_ADMIN, rq_userId = ''root'', rq_periodId = pid \<rparr>"

definition rollover_readings :: "reading_row list" where
  "rollover_readings = [rd ''m1'' ''p1'' 500 10, rd ''m2'' ''p1'' 50 11,
                        rd ''m1'' ''p2'' 10 110, rd ''m2'' ''p2'' 54 111]"

definition skipped_period_db :: db where
  "skipped_period_db =
     \<lparr> periods = [\<lparr> p_id = ''p0'', p_condominiumId = ''c1'', p_status = CLOSED,
                     p_totalVolume = Some 20, p_totalAmount = Some 40,
                     p_endDate = Some 30, p_createdAt = 1 \<rparr>,
                   \<lparr> p_id = ''p1'', p_condominiumId = ''c1'', p_status = CLOSED,
                     p_totalVolume = Some 20, p_totalAmount = Some 40,
                     p_endDate = Some 100, p_createdAt = 50 \<rparr>,
                   \<lparr> p_id = ''p2'', p_condominiumId = ''c1'', p_status = CALCULATING,
                     p_totalVolume = Some 25, p_totalAmount = Some 50,
                     p_endDate = None, p_createdAt = 101 \<rparr>],
       blocks = [\<lparr> b_id = ''b1'', b_condominiumId = ''c1'', b_name = ''A'' \<rparr>],
       units = [\<lparr> u_id = ''u1'', u_blockId = ''b1'', u_name = ''101'', u_isActive = True,
                   u_resident = None \<rparr>],
       meters = [\<lparr> m_id = ''m1'', m_unitId = ''u1'', m_type = WATER, m_isActive = True \<rparr>],
       readings = [rd ''m1'' ''p0'' 40 10, rd ''m1'' ''p2'' 55 110],
       billTable = [], systemConfig = [], unitCalculations = [], periodCalculations = [],
       auditLog = [] \<rparr>"

definition three_units_db :: db where
  "three_units_db =
     (demo_db [cfg ''water_fixed_charge'' ''5''] demo_readings)\<lparr>
        units := units (demo_db [] []) @
                 [\<lparr> u_id = ''u3'', u_blockId = ''b1'', u_name = ''103'', u_isActive = True,
                    u_resident = None \<rparr>],
        meters := meters (demo_db [] []) @
                 [\<lparr> m_id = ''m3'', m_unitId = ''u3'', m_type = WATER, m_isActive = True \<rparr>] \<rparr>"

section \<open>Maps and configuration lookups\<close>

lemma new_Map_map_of: "new_Map ps k = map_of (rev ps) k"
proof -
  have "foldl (\<lambda>m (k, v). m(k \<mapsto> v)) m0 ps k
          = (case map_of (rev ps) k of None \<Rightarrow> m0 k | Some v \<Rightarrow> Some v)" for m0
    by (induction ps arbitrary: m0) (auto simp: map_add_def split: option.splits)
  then show ?thesis by (simp add: new_Map_def split: option.splits)
qed

lemma map_of_filter_key:
  "map_of (map (\<lambda>c. (key c, g c)) (filter (\<lambda>c. P (key c)) xs)) k =
     (if P k then map_of (map (\<lambda>c. (key c, g c)) xs) k else None)"
  by (induction xs) auto

lemma configMap_lookup:
  "configMap env d k =
     (if k \<in> set rateKeys
      then map_of (map (\<lambda>c. (c_key c, parseFloat env (c_value c))) (rev (systemConfig d))) k
      else None)"
  unfolding configMap_def Let_def new_Map_map_of rev_map rev_filter
  by (rule map_of_filter_key)

lemma configMap_remove_key:
  "configMap env (d\<lparr> systemConfig := filter (\<lambda>c. c_key c \<noteq> k) (systemConfig d) \<rparr>) k' =
     (if k' = k then None else configMap env d k')"
  unfolding configMap_lookup
  by (simp add: rev_filter map_of_filter_key[where P="\<lambda>x. x \<noteq> k"])

lemma configMap_falsy:
  assumes "\<forall>c \<in> set (systemConfig d). c_key c = k \<longrightarrow>
             parseFloat env (c_value c) = Num 0 \<or> parseFloat env (c_value c) = NaN"
  shows "\<not> truthy (configMap env d k)"
proof (cases "configMap env d k")
  case None
  then show ?thesis by simp
next
  case (Some v)
  then have "(k, v) \<in> set (map (\<lambda>c. (c_key c, parseFloat env (c_value c))) (rev (systemConfig d)))"
    by (auto simp: configMap_lookup split: if_splits dest: map_of_SomeD)
  with assms have "v = Num 0 \<or> v = NaN" by auto
  with Some show ?thesis by auto
qed

section \<open>Falsy rates behave as unset rates\<close>

lemma unitConsumption_falsy_cong:
  assumes "truthy (minimumConsumption r) = truthy (minimumConsumption r')"
    and "truthy (minimumConsumption r) \<Longrightarrow> numval (minimumConsumption r) = numval (minimumConsumption r')"
  shows "unitConsumption r c p = unitConsumption r' c p"
  using assms by (auto simp: unitConsumption_def Let_def)

lemma calculateIndividualCost_falsy_cong:
  assumes "basicRate r = basicRate r'"
    and "truthy (fixedCharge r) = truthy (fixedCharge r')"
    and "truthy (fixedCharge r) \<Longrightarrow> numval (fixedCharge r) = numval (fixedCharge r')"
  shows "calculateIndividualCost c r = calculateIndividualCost c r'"
  using assms by (auto simp: calculateIndividualCost_def Let_def)

lemma processUnit_falsy_cong:
  assumes "basicRate r = basicRate r'"
    and "truthy (fixedCharge r) = truthy (fixedCharge r')"
    and "truthy (fixedCharge r) \<Longrightarrow> numval (fixedCharge r) = numval (fixedCharge r')"
    and "truthy (minimumConsumption r) = truthy (minimumConsumption r')"
    and "truthy (minimumConsumption r) \<Longrightarrow> numval (minimumConsumption r) = numval (minimumConsumption r')"
  shows "processUnit env rs prev r = processUnit env rs prev r'"
proof -
  have 1: "unitConsumption r c p = unitConsumption r' c p" for c p
    using assms(4,5) by (rule unitConsumption_falsy_cong)
  have 2: "calculateIndividualCost c r = calculateIndividualCost c r'" for c
    using assms(1,2,3) by (rule calculateIndividualCost_falsy_cong)
  show ?thesis
    by (intro ext) (simp add: processUnit_def Let_def 1 2 split: option.splits)
qed

lemma getWaterRates_remove_falsy:
  assumes "\<forall>c \<in> set (systemConfig d). c_key c = k \<longrightarrow>
             parseFloat env (c_value c) = Num 0 \<or> parseFloat env (c_value c) = NaN"
  defines "d' \<equiv> d\<lparr> systemConfig := filter (\<lambda>c. c_key c \<noteq> k) (systemConfig d) \<rparr>"
  shows "processUnit env rs prev (getWaterRates env d) = processUnit env rs prev (getWaterRates env d')"
proof -
  have f: "\<not> truthy (configMap env d k)" using assms(1) by (rule configMap_falsy)
  have r: "configMap env d' k' = (if k' = k then None else configMap env d k')" for k'
    unfolding d'_def by (rule configMap_remove_key)
  show ?thesis
    by (rule processUnit_falsy_cong) (use f in \<open>auto simp: getWaterRates_def r\<close>)
qed

lemma systemConfig_irrelevant:
  "activeUnits (d\<lparr> systemConfig := cs \<rparr>) c = activeUnits d c"
  "getPreviousReadings (d\<lparr> systemConfig := cs \<rparr>) c ms = getPreviousReadings d c ms"
  "periodReadingsOf (d\<lparr> systemConfig := cs \<rparr>) p = periodReadingsOf d p"
  by (simp_all add: activeUnits_def unitsOfBlock_def getPreviousReadings_def
        previousReadingRows_def periodMatches_def periodReadingsOf_def)

text \<open>
  Claim C10. When every \<^verbatim>\<open>systemConfig\<close> row of one of the keys
  \<^verbatim>\<open>water_basic_rate\<close>, \<^verbatim>\<open>water_fixed_charge\<close>, \<^verbatim>\<open>water_minimum_consumption\<close> has a
  value that \<^verbatim>\<open>parseFloat\<close> reads as 0 or as \<^verbatim>\<open>NaN\<close>, the calculation returns exactly what
  it returns on the database without those rows; for \<^verbatim>\<open>water_basic_rate\<close> the resolved
  \<open>basicRate\<close> is the default 1.5. A rate configured as zero is replaced by the default, and
  a fixed charge or minimum consumption configured as zero acts as an absent one.
\<close>

theorem rates_falsy_as_unset:
  assumes "k \<in> {''water_basic_rate'', ''water_fixed_charge'', ''water_minimum_consumption''}"
    and "\<forall>c \<in> set (systemConfig d). c_key c = k \<longrightarrow>
             parseFloat env (c_value c) = Num 0 \<or> parseFloat env (c_value c) = NaN"
  shows "(k = ''water_basic_rate'' \<longrightarrow> basicRate (getWaterRates env d) = 1.5)
       \<and> calculatePeriodBills env d periodId =
           calculatePeriodBills env
             (d\<lparr> systemConfig := filter (\<lambda>c. c_key c \<noteq> k) (systemConfig d) \<rparr>) periodId"
proof
  have f: "\<not> truthy (configMap env d k)" using assms(2) by (rule configMap_falsy)
  then show "k = ''water_basic_rate'' \<longrightarrow> basicRate (getWaterRates env d) = 1.5"
    by (auto simp: getWaterRates_def)
next
  let ?d' = "d\<lparr> systemConfig := filter (\<lambda>c. c_key c \<noteq> k) (systemConfig d) \<rparr>"
  have "calculateLoaded env d periodId c tv ta = calculateLoaded env ?d' periodId c tv ta" for c tv ta
    unfolding calculateLoaded_def Let_def runLoop_def systemConfig_irrelevant
      getWaterRates_remove_falsy[OF assms(2)] ..
  then have "calculateLoaded env ?d' periodId c tv ta = calculateLoaded env d periodId c tv ta"
    for c tv ta by simp
  then show "calculatePeriodBills env d periodId = calculatePeriodBills env ?d' periodId"
    by (simp add: calculatePeriodBills_def split: option.splits)
qed

theorem rates_falsy_as_unset_witness:
  "basicRate (getWaterRates demo_js (demo_db [cfg ''water_basic_rate'' ''abc''] demo_readings)) = 1.5
   \<and> basicRate (getWaterRates demo_js
        (demo_db [cfg ''water_basic_rate'' ''0'', cfg ''water_fixed_charge'' ''5''] demo_readings)) = 1.5
   \<and> calculatePeriodBills demo_js
        (demo_db [cfg ''water_basic_rate'' ''0'', cfg ''water_fixed_charge'' ''5''] demo_readings) ''p2''
     = calculatePeriodBills demo_js (demo_db [cfg ''water_fixed_charge'' ''5''] demo_readings) ''p2''
   \<and> calculatePeriodBills demo_js (demo_db [cfg ''water_fixed_charge'' ''0''] demo_readings) ''p2''
     = calculatePeriodBills demo_js (demo_db [] demo_readings) ''p2''
   \<and> calculatePeriodBills demo_js (demo_db [cfg ''water_minimum_consumption'' ''0''] demo_readings) ''p2''
     = calculatePeriodBills demo_js (demo_db [] demo_readings) ''p2''"
proof -
  have k: "k \<in> {''water_basic_rate'', ''water_fixed_charge'', ''water_minimum_consumption''}"
    if "k = ''water_basic_rate'' \<or> k = ''water_fixed_charge'' \<or> k = ''water_minimum_consumption''"
    for k :: string
    using that by auto
  have h: "\<forall>c \<in> set (systemConfig (demo_db cs demo_readings)). c_key c = k \<longrightarrow>
             parseFloat demo_js (c_value c) = Num 0 \<or> parseFloat demo_js (c_value c) = NaN"
    if "\<forall>c \<in> set cs. c_key c = k \<longrightarrow> c_value c = ''0'' \<or> c_value c = ''abc''" for cs k
    using that by (auto simp: demo_db_def demo_js_def)
  have e: "(demo_db cs demo_readings)\<lparr> systemConfig :=
               filter (\<lambda>c. c_key c \<noteq> k) (systemConfig (demo_db cs demo_readings)) \<rparr>
             = demo_db (filter (\<lambda>c. c_key c \<noteq> k) cs) demo_readings" for cs k
    by (simp add: demo_db_def)
  have 1: "basicRate (getWaterRates demo_js (demo_db [cfg ''water_basic_rate'' ''abc''] demo_readings)) = 1.5"
    using rates_falsy_as_unset[OF k h, of "''water_basic_rate''" "[cfg ''water_basic_rate'' ''abc'']"]
    by (simp add: cfg_def)
  have 2: "basicRate (getWaterRates demo_js
             (demo_db [cfg ''water_basic_rate'' ''0'', cfg ''water_fixed_charge'' ''5''] demo_readings)) = 1.5
         \<and> calculatePeriodBills demo_js
             (demo_db [cfg ''water_basic_rate'' ''0'', cfg ''water_fixed_charge'' ''5''] demo_readings) ''p2''
           = calculatePeriodBills demo_js (demo_db [cfg ''water_fixed_charge'' ''5''] demo_readings) ''p2''"
    using rates_falsy_as_unset[OF k h, of "''water_basic_rate''"
            "[cfg ''water_basic_rate'' ''0'', cfg ''water_fixed_charge'' ''5'']" "''p2''"]
    unfolding e by (simp add: cfg_def)
  have 3: "calculatePeriodBills demo_js (demo_db [cfg ''water_fixed_charge'' ''0''] demo_readings) ''p2''
             = calculatePeriodBills demo_js (demo_db [] demo_readings) ''p2''"
    using rates_falsy_as_unset[OF k h, of "''water_fixed_charge''"
            "[cfg ''water_fixed_charge'' ''0'']" "''p2''"]
    unfolding e by (simp add: cfg_def)
  have 4: "calculatePeriodBills demo_js (demo_db [cfg ''water_minimum_consumption'' ''0''] demo_readings) ''p2''
             = calculatePeriodBills demo_js (demo_db [] demo_readings) ''p2''"
    using rates_falsy_as_unset[OF k h, of "''water_minimum_consumption''"
            "[cfg ''water_minimum_consumption'' ''0'']" "''p2''"]
    unfolding e by (simp add: cfg_def)
  from 1 2 3 4 show ?thesis by simp
qed

section \<open>The loop and the allocation pass\<close>

lemma foldl_plus_sum_list:
  "foldl (\<lambda>sum b. sum + f b) a bs = (a::real) + sum_list (map f bs)"
  by (induction bs arbitrary: a) auto

lemma processUnit_total:
  "ls_total (processUnit env rs prev rates st u) - sum_list (map consumption (ls_bills (processUnit env rs prev rates st u)))
     = ls_total st - sum_list (map consumption (ls_bills st))"
  by (simp add: processUnit_def Let_def split: option.splits)

lemma foldl_processUnit_total:
  "ls_total (foldl (processUnit env rs prev rates) st us)
      - sum_list (map consumption (ls_bills (foldl (processUnit env rs prev rates) st us)))
     = ls_total st - sum_list (map consumption (ls_bills st))"
  by (induction us arbitrary: st) (simp_all add: processUnit_total)

lemma runLoop_total:
  "ls_total (runLoop env rs prev rates us) = sum_list (map consumption (ls_bills (runLoop env rs prev rates us)))"
  using foldl_processUnit_total[of env rs prev rates "\<lparr> ls_anomalies = [], ls_bills = [], ls_total = 0 \<rparr>" us]
  by (simp add: runLoop_def)

lemma applyCommonArea_fields:
  "unitId (applyCommonArea pu c b) = unitId b"
  "consumption (applyCommonArea pu c b) = consumption b"
  "individualCost (applyCommonArea pu c b) = individualCost b"
  "commonAreaCost (applyCommonArea pu c b) = pu"
  "totalCost (applyCommonArea pu c b) = individualCost b + pu"
  "currentReading (applyCommonArea pu c b) = currentReading b"
  "previousReading (applyCommonArea pu c b) = previousReading b"
  by (simp_all add: applyCommonArea_def applyExtraCharges_def getExtraCharges_def Let_def)

lemma finishCalculation_fields:
  "totalIndividualConsumption (finishCalculation env c tv ta st) = ls_total st"
  "commonAreaConsumption (finishCalculation env c tv ta st) = max 0 (tv - ls_total st)"
  "commonAreaCostPerUnit (finishCalculation env c tv ta st) =
     (if length (ls_bills st) > 0 then commonAreaTotalCostOf ta (ls_bills st) / real (length (ls_bills st)) else 0)"
  "bills (finishCalculation env c tv ta st) =
     map (applyCommonArea (commonAreaCostPerUnit (finishCalculation env c tv ta st)) c) (ls_bills st)"
  by (simp_all add: finishCalculation_def Let_def)

lemma calculatePeriodBills_InrD:
  assumes "calculatePeriodBills env d periodId = Inr res"
  obtains period tv ta where
    "find (\<lambda>p. p_id p = periodId) (periods d) = Some period"
    "p_status period = CALCULATING"
    "p_totalVolume period = Some tv" "p_totalAmount period = Some ta" "tv \<noteq> 0" "ta \<noteq> 0"
    "res = calculateLoaded env d periodId (p_condominiumId period) tv ta"
  using assms by (auto simp: calculatePeriodBills_def split: option.splits if_splits)

lemma commonAreaTotalCostOf_map:
  "commonAreaTotalCostOf ta (map (applyCommonArea pu c) bs) = commonAreaTotalCostOf ta bs"
  by (simp add: commonAreaTotalCostOf_def foldl_plus_sum_list applyCommonArea_fields o_def)

lemma calculatePeriodBills_shape:
  assumes "calculatePeriodBills env d periodId = Inr res"
    and "find (\<lambda>p. p_id p = periodId) (periods d) = Some period"
    and "p_totalVolume period = Some tv" and "p_totalAmount period = Some ta"
  obtains st where "res = finishCalculation env (p_condominiumId period) tv ta st"
    and "ls_total st = sum_list (map consumption (ls_bills st))"
proof -
  from assms(1) obtain period' tv' ta' where
    p: "find (\<lambda>p. p_id p = periodId) (periods d) = Some period'"
    "p_totalVolume period' = Some tv'" "p_totalAmount period' = Some ta'"
    and res: "res = calculateLoaded env d periodId (p_condominiumId period') tv' ta'"
    by (rule calculatePeriodBills_InrD)
  from p assms(2-4) have eq: "period' = period" "tv' = tv" "ta' = ta" by simp_all
  show thesis
    using res runLoop_total that unfolding eq calculateLoaded_def Let_def by blast
qed

text \<open>
  Claim C8. In every result of the calculation, the common-area consumption is
  \<open>max 0 (totalVolume - \<Sum> consumption)\<close> over the returned bills and the common-area total
  cost is \<open>max 0 (totalAmount - \<Sum> individualCost)\<close>; neither is negative, and the per-unit
  share times the number of bills gives that total back.
\<close>

theorem common_area_never_negative:
  assumes "calculatePeriodBills env d periodId = Inr res"
    and "find (\<lambda>p. p_id p = periodId) (periods d) = Some period"
    and "p_totalVolume period = Some tv" and "p_totalAmount period = Some ta"
  shows "commonAreaConsumption res = max 0 (tv - sum_list (map consumption (bills res)))
       \<and> 0 \<le> commonAreaConsumption res
       \<and> commonAreaTotalCostOf ta (bills res) = max 0 (ta - sum_list (map individualCost (bills res)))
       \<and> 0 \<le> commonAreaTotalCostOf ta (bills res)
       \<and> commonAreaCostPerUnit res * real (length (bills res))
           = (if bills res = [] then 0 else commonAreaTotalCostOf ta (bills res))"
proof -
  from assms obtain st where st: "res = finishCalculation env (p_condominiumId period) tv ta st"
    and tot: "ls_total st = sum_list (map consumption (ls_bills st))"
    by (rule calculatePeriodBills_shape)
  have c: "map consumption (bills res) = map consumption (ls_bills st)"
    by (simp add: st finishCalculation_fields(4) applyCommonArea_fields o_def)
  have t: "commonAreaTotalCostOf ta (bills res) = commonAreaTotalCostOf ta (ls_bills st)"
    by (simp add: st finishCalculation_fields(4) commonAreaTotalCostOf_map)
  have l: "length (bills res) = length (ls_bills st)"
    by (simp add: st finishCalculation_fields(4))
  have 1: "commonAreaConsumption res = max 0 (tv - sum_list (map consumption (bills res)))"
    by (simp add: c) (simp add: st finishCalculation_fields(2) tot)
  have 3: "commonAreaTotalCostOf ta (bills res) = max 0 (ta - sum_list (map individualCost (bills res)))"
    by (simp add: commonAreaTotalCostOf_def foldl_plus_sum_list)
  have 5: "commonAreaCostPerUnit res * real (length (bills res))
             = (if bills res = [] then 0 else commonAreaTotalCostOf ta (bills res))"
    unfolding t l by (cases "ls_bills st = []") (simp_all add: st finishCalculation_fields(3,4))
  from 1 3 5 show ?thesis by simp
qed

theorem common_area_never_negative_witness:
  "\<exists>res. calculatePeriodBills demo_js (demo_db [] skewed_readings) ''p2'' = Inr res
     \<and> sum_list (map consumption (bills res)) = 104
     \<and> commonAreaConsumption res = 0
     \<and> commonAreaTotalCostOf 50 (bills res) = 0
     \<and> commonAreaCostPerUnit res = 0"
proof -
  let ?d = "demo_db [] skewed_readings"
  have "case calculatePeriodBills demo_js ?d ''p2'' of Inl e \<Rightarrow> False
        | Inr res \<Rightarrow> sum_list (map consumption (bills res)) = 104
                     \<and> sum_list (map individualCost (bills res)) = 156 \<and> length (bills res) = 2"
    by code_simp
  then obtain res where ev: "calculatePeriodBills demo_js ?d ''p2'' = Inr res"
    and s: "sum_list (map consumption (bills res)) = 104"
      "sum_list (map individualCost (bills res)) = 156" "length (bills res) = 2"
    by (cases "calculatePeriodBills demo_js ?d ''p2''") auto
  have f: "find (\<lambda>p. p_id p = ''p2'') (periods ?d)
             = Some \<lparr> p_id = ''p2'', p_condominiumId = ''c1'', p_status = CALCULATING,
                      p_totalVolume = Some 25, p_totalAmount = Some 50,
                      p_endDate = None, p_createdAt = 101 \<rparr>"
    by (simp add: demo_db_def)
  from s(3) have ne: "bills res \<noteq> []" by auto
  from common_area_never_negative[OF ev f, of 25 50] s ne
  have "commonAreaConsumption res = 0 \<and> commonAreaTotalCostOf 50 (bills res) = 0
          \<and> commonAreaCostPerUnit res = 0"
    by simp
  with ev s(1) show ?thesis by (intro exI[of _ res]) simp
qed

lemma bills_commonAreaCost:
  assumes "res = finishCalculation env c tv ta st" and "b \<in> set (bills res)"
  shows "commonAreaCost b = commonAreaCostPerUnit res"
  using assms by (auto simp: finishCalculation_fields(4) applyCommonArea_fields)

text \<open>
  Claim C7. Every bill of a result carries the same \<open>commonAreaCost\<close>, the result's
  \<open>commonAreaCostPerUnit\<close>, which is the common-area total cost divided by the number of
  bills, and 0 when there is no bill; the unit's own consumption plays no part. With a receipt
  of 150, individual costs summing to 120 and five billed units every share is 6.
\<close>

theorem common_area_split_even:
  assumes "calculatePeriodBills env d periodId = Inr res"
    and "find (\<lambda>p. p_id p = periodId) (periods d) = Some period"
    and "p_totalVolume period = Some tv" and "p_totalAmount period = Some ta"
  shows "(\<forall>b \<in> set (bills res). commonAreaCost b = commonAreaCostPerUnit res)
       \<and> commonAreaCostPerUnit res =
           (if length (bills res) > 0
            then commonAreaTotalCostOf ta (bills res) / real (length (bills res)) else 0)"
proof -
  from assms obtain st where st: "res = finishCalculation env (p_condominiumId period) tv ta st"
    by (rule calculatePeriodBills_shape)
  have t: "commonAreaTotalCostOf ta (bills res) = commonAreaTotalCostOf ta (ls_bills st)"
    by (simp add: st finishCalculation_fields(4) commonAreaTotalCostOf_map)
  have l: "length (bills res) = length (ls_bills st)"
    by (simp add: st finishCalculation_fields(4))
  have "commonAreaCostPerUnit res =
           (if length (bills res) > 0
            then commonAreaTotalCostOf ta (bills res) / real (length (bills res)) else 0)"
    unfolding t l by (simp add: st finishCalculation_fields(3))
  with bills_commonAreaCost[OF st] show ?thesis by blast
qed

theorem common_area_split_even_witness:
  "\<exists>res. calculatePeriodBills demo_js five_units_db ''p2'' = Inr res
     \<and> map consumption (bills res) = [10, 20, 30, 15, 5]
     \<and> sum_list (map individualCost (bills res)) = 120
     \<and> map commonAreaCost (bills res) = [6, 6, 6, 6, 6]"
proof -
  have "case calculatePeriodBills demo_js five_units_db ''p2'' of Inl e \<Rightarrow> False
        | Inr res \<Rightarrow> map consumption (bills res) = [10, 20, 30, 15, 5]
                     \<and> sum_list (map individualCost (bills res)) = 120 \<and> length (bills res) = 5"
    by code_simp
  then obtain res where ev: "calculatePeriodBills demo_js five_units_db ''p2'' = Inr res"
    and s: "map consumption (bills res) = [10, 20, 30, 15, 5]"
      "sum_list (map individualCost (bills res)) = 120" "length (bills res) = 5"
    by (cases "calculatePeriodBills demo_js five_units_db ''p2''") auto
  have f: "find (\<lambda>p. p_id p = ''p2'') (periods five_units_db)
             = Some \<lparr> p_id = ''p2'', p_condominiumId = ''c1'', p_status = CALCULATING,
                      p_totalVolume = Some 100, p_totalAmount = Some 150,
                      p_endDate = None, p_createdAt = 101 \<rparr>"
    by (simp add: five_units_db_def)
  have t: "commonAreaTotalCostOf 150 (bills res) = 30"
    by (simp add: commonAreaTotalCostOf_def foldl_plus_sum_list s)
  from common_area_split_even[OF ev f, of 100 150]
  have "\<forall>b \<in> set (bills res). commonAreaCost b = 6"
    by (simp add: t s)
  then have "map commonAreaCost (bills res) = map (\<lambda>b. 6) (bills res)"
    by (intro map_cong) auto
  also have "\<dots> = replicate (length (bills res)) 6"
    by (simp add: map_replicate_const)
  finally have "map commonAreaCost (bills res) = [6, 6, 6, 6, 6]"
    by (simp add: s numeral_eq_Suc)
  with ev s show ?thesis by (intro exI[of _ res]) simp
qed

section \<open>Guards of the calculation\<close>

lemma calculatePeriodBills_rejects:
  "find (\<lambda>p. p_id p = periodId) (periods d) = None
     \<Longrightarrow> calculatePeriodBills env d periodId = Inl (Error ''Period not found'')"
  "find (\<lambda>p. p_id p = periodId) (periods d) = Some period \<Longrightarrow> p_status period \<noteq> CALCULATING
     \<Longrightarrow> calculatePeriodBills env d periodId = Inl (Error ''Period is not ready for calculation'')"
  "find (\<lambda>p. p_id p = periodId) (periods d) = Some period \<Longrightarrow> p_status period = CALCULATING
     \<Longrightarrow> p_totalVolume period \<in> {None, Some 0} \<or> p_totalAmount period \<in> {None, Some 0}
     \<Longrightarrow> calculatePeriodBills env d periodId = Inl (Error ''Period receipt data is incomplete'')"
  by (auto simp: calculatePeriodBills_def split: option.splits)




section \<open>Persistence\<close>

lemma saveBills_success:
  assumes "\<And>op. \<not> fails op" and "periodId \<in> p_id ` set (periods d)"
  shows "saveBills fails now periodId calculationResult d =
           (None, d\<lparr> billTable := filter (\<lambda>b. bl_periodId b \<noteq> periodId) (billTable d)
                                      @ billsData periodId calculationResult,
                       periods := map (\<lambda>p. if p_id p = periodId
                                            then p\<lparr> p_status := CLOSED, p_endDate := Some now \<rparr>
                                            else p) (periods d) \<rparr>)"
  using assms
  by (simp add: saveBills_def bill_deleteMany_def bill_createMany_def period_update_def Let_def)

text \<open>
  Claim C1 on the code. \<^verbatim>\<open>saveBills\<close> issues its three storage calls one by one, outside any
  transaction. When the bulk insert raises, the delete has already taken effect: the period is
  still CALCULATING, but its prior bill is gone.
\<close>

theorem saveBills_partial_write:
  "saveBills (\<lambda>op. op = BillCreateMany) 200 ''p2'' new_result recalculated_db
     = (Some StorageFailure, recalculated_db\<lparr> billTable := [] \<rparr>)
   \<and> billTable recalculated_db = [old_bill ''p2'' ''u1'']
   \<and> map p_status (periods recalculated_db) = [CLOSED, CALCULATING]"
  by (simp add: saveBills_def bill_deleteMany_def recalculated_db_def demo_db_def old_bill_def)

section \<open>Reopening\<close>

lemma find_map_status:
  assumes "find (\<lambda>p. p_id p = k) ps = Some p"
  shows "find (\<lambda>p. p_id p = k) (map (\<lambda>p. if p_id p = k then p\<lparr> p_status := s \<rparr> else p) ps)
           = Some (p\<lparr> p_status := s \<rparr>)"
  using assms by (induction ps) (auto split: if_splits)

text \<open>
  Claim C4 as stated fails. Reopening a CLOSED period that has a bill succeeds, empties the
  two calculation tables and sets the status to PENDING\_RECEIPT, and the bill is still there:
  the handler never touches the \<^verbatim>\<open>bill\<close> table.
\<close>

theorem reopen_keeps_bills_counterexample:
  "fst (deleteCalculations (reopen_request ''p1'') closed_db) = None
   \<and> billTable (snd (deleteCalculations (reopen_request ''p1'') closed_db)) = [old_bill ''p1'' ''u1'']
   \<and> unitCalculations (snd (deleteCalculations (reopen_request ''p1'') closed_db)) = []
   \<and> map p_status (periods (snd (deleteCalculations (reopen_request ''p1'') closed_db)))
        = [PENDING_RECEIPT, CALCULATING]"
  by (simp add: deleteCalculations_def reopen_request_def closed_db_def demo_db_def Let_def)

text \<open>
  Claim C4, amended. For a super administrator and an existing period: if the period is CLOSED
  the handler succeeds, no unit-calculation or period-calculation row of the period remains,
  the bills are left as they were, and the period's status becomes PENDING\_RECEIPT; if the
  period is not CLOSED the handler answers with the 400 error
  \<^verbatim>\<open>Can only delete calculations from closed periods\<close> and the database is unchanged.
\<close>

theorem reopen_closed_period:
  assumes "rq_role req = SUPER_ADMIN"
    and "find (\<lambda>p. p_id p = rq_periodId req) (periods d) = Some period"
  shows "(p_status period = CLOSED \<longrightarrow>
            fst (deleteCalculations req d) = None
          \<and> filter (\<lambda>c. uc_periodId c = rq_periodId req)
               (unitCalculations (snd (deleteCalculations req d))) = []
          \<and> filter (\<lambda>c. pc_periodId c = rq_periodId req)
               (periodCalculations (snd (deleteCalculations req d))) = []
          \<and> billTable (snd (deleteCalculations req d)) = billTable d
          \<and> find (\<lambda>p. p_id p = rq_periodId req) (periods (snd (deleteCalculations req d)))
               = Some (period\<lparr> p_status := PENDING_RECEIPT \<rparr>))
       \<and> (p_status period \<noteq> CLOSED \<longrightarrow>
            deleteCalculations req d
              = (Some (HttpError ''Can only delete calculations from closed periods'' 400), d))"
proof (intro conjI impI)
  assume c: "p_status period = CLOSED"
  let ?d' = "snd (deleteCalculations req d)"
  from assms c show "fst (deleteCalculations req d) = None"
    by (simp add: deleteCalculations_def Let_def)
  from assms c show "filter (\<lambda>c. uc_periodId c = rq_periodId req) (unitCalculations ?d') = []"
    by (simp add: deleteCalculations_def Let_def filter_empty_conv)
  from assms c show "filter (\<lambda>c. pc_periodId c = rq_periodId req) (periodCalculations ?d') = []"
    by (simp add: deleteCalculations_def Let_def filter_empty_conv)
  from assms c show "billTable ?d' = billTable d"
    by (simp add: deleteCalculations_def Let_def)
  from assms c show "find (\<lambda>p. p_id p = rq_periodId req) (periods ?d')
                       = Some (period\<lparr> p_status := PENDING_RECEIPT \<rparr>)"
    by (simp add: deleteCalculations_def Let_def find_map_status)
next
  assume "p_status period \<noteq> CLOSED"
  with assms show "deleteCalculations req d
              = (Some (HttpError ''Can only delete calculations from closed periods'' 400), d)"
    by (simp add: deleteCalculations_def)
qed

theorem reopen_closed_period_witness:
  "find (\<lambda>p. p_id p = ''p1'') (periods (snd (deleteCalculations (reopen_request ''p1'') closed_db)))
     = Some \<lparr> p_id = ''p1'', p_condominiumId = ''c1'', p_status = PENDING_RECEIPT,
              p_totalVolume = Some 20, p_totalAmount = Some 40,
              p_endDate = Some 100, p_createdAt = 1 \<rparr>
   \<and> billTable (snd (deleteCalculations (reopen_request ''p1'') closed_db)) = [old_bill ''p1'' ''u1'']
   \<and> deleteCalculations (reopen_request ''p2'') closed_db
       = (Some (HttpError ''Can only delete calculations from closed periods'' 400), closed_db)"
proof -
  have r: "rq_role (reopen_request pid) = SUPER_ADMIN" for pid
    by (simp add: reopen_request_def)
  have f1: "find (\<lambda>p. p_id p = rq_periodId (reopen_request ''p1'')) (periods closed_db)
              = Some \<lparr> p_id = ''p1'', p_condominiumId = ''c1'', p_status = CLOSED,
                       p_totalVolume = Some 20, p_totalAmount = Some 40,
                       p_endDate = Some 100, p_createdAt = 1 \<rparr>"
    by (simp add: reopen_request_def closed_db_def demo_db_def)
  have f2: "find (\<lambda>p. p_id p = rq_periodId (reopen_request ''p2'')) (periods closed_db)
              = Some \<lparr> p_id = ''p2'', p_condominiumId = ''c1'', p_status = CALCULATING,
                       p_totalVolume = Some 25, p_totalAmount = Some 50,
                       p_endDate = None, p_createdAt = 101 \<rparr>"
    by (simp add: reopen_request_def closed_db_def demo_db_def)
  have b: "billTable closed_db = [old_bill ''p1'' ''u1'']"
    by (simp add: closed_db_def)
  show ?thesis
    using reopen_closed_period[OF r f1] reopen_closed_period[OF r f2]
    by (simp add: b reopen_request_def)
qed

section \<open>The loop, unit by unit\<close>

lemma activeUnits_have_meter:
  "u \<in> set (activeUnits d c) \<Longrightarrow> lu_meters u \<noteq> []"
  by (auto simp: activeUnits_def)

lemma processUnit_decompose:
  "processUnit env rs prev rates st u =
     \<lparr> ls_anomalies = ls_anomalies st @ unitAnomalies env rs prev rates u,
       ls_bills = ls_bills st @ unitBills env rs prev rates u,
       ls_total = ls_total st + sum_list (map consumption (unitBills env rs prev rates u)) \<rparr>"
  by (simp add: processUnit_def unitBills_def unitAnomalies_def Let_def split: option.splits)

lemma foldl_processUnit:
  "foldl (processUnit env rs prev rates) st us =
     \<lparr> ls_anomalies = ls_anomalies st @ concat (map (unitAnomalies env rs prev rates) us),
       ls_bills = ls_bills st @ concat (map (unitBills env rs prev rates) us),
       ls_total = ls_total st
          + sum_list (map consumption (concat (map (unitBills env rs prev rates) us))) \<rparr>"
proof (induction us arbitrary: st)
  case Nil
  show ?case by simp
next
  case (Cons u us)
  show ?case
    unfolding foldl_Cons Cons.IH by (simp add: processUnit_decompose)
qed

lemma runLoop_eq:
  "runLoop env rs prev rates us =
     \<lparr> ls_anomalies = concat (map (unitAnomalies env rs prev rates) us),
       ls_bills = concat (map (unitBills env rs prev rates) us),
       ls_total = sum_list (map consumption (concat (map (unitBills env rs prev rates) us))) \<rparr>"
  unfolding runLoop_def foldl_processUnit by simp

lemma unitBills_missing:
  assumes "\<not> hasReading rs u"
  shows "unitBills env rs prev rates u = []"
    and "unitAnomalies env rs prev rates u = [missingMsg u]"
  using assms by (simp_all add: unitBills_def unitAnomalies_def processUnit_def hasReading_def Let_def)

lemma unitBills_present:
  assumes "find (\<lambda>r. r_meterId r = m_id (primaryMeter u)) rs = Some cr"
  shows "\<exists>b. unitBills env rs prev rates u = [b] \<and> unitId b = lu_id u \<and> unitName b = lu_name u
           \<and> currentReading b = r_value cr
           \<and> previousReading b = previousValueOf prev (m_id (primaryMeter u))
           \<and> consumption b = unitConsumption rates (currentReading b) (previousReading b)
           \<and> individualCost b = calculateIndividualCost (consumption b) rates
           \<and> unitAnomalies env rs prev rates u =
               (if currentReading b - previousReading b < 0
                then [replacementMsg env u (previousReading b) (currentReading b)] else [])"
  using assms by (simp add: unitBills_def unitAnomalies_def processUnit_def Let_def)

lemma unitBills_cases:
  "unitBills env rs prev rates u = [] \<and> \<not> hasReading rs u
   \<or> (\<exists>b. unitBills env rs prev rates u = [b] \<and> hasReading rs u)"
  by (cases "find (\<lambda>r. r_meterId r = m_id (primaryMeter u)) rs")
     (simp_all add: unitBills_def processUnit_def hasReading_def Let_def)

lemma unitIds_of_bills:
  "map unitId (concat (map (unitBills env rs prev rates) us)) = map lu_id (filter (hasReading rs) us)"
proof (induction us)
  case Nil
  show ?case by simp
next
  case (Cons u us)
  show ?case
  proof (cases "find (\<lambda>r. r_meterId r = m_id (primaryMeter u)) rs")
    case None
    then have "\<not> hasReading rs u" by (simp add: hasReading_def)
    with Cons show ?thesis by (simp add: unitBills_missing)
  next
    case (Some cr)
    then have h: "hasReading rs u" by (simp add: hasReading_def)
    from unitBills_present[OF Some] obtain b where
      "unitBills env rs prev rates u = [b]" "unitId b = lu_id u" by blast
    with Cons h show ?thesis by simp
  qed
qed

lemma anomalies_finishCalculation:
  "set (ls_anomalies st) \<subseteq> set (anomalies (finishCalculation env c tv ta st))"
  by (auto simp: finishCalculation_def Let_def)

lemma unitConsumption_rollover:
  assumes "cur < pv"
  shows "unitConsumption rates cur pv =
           (if truthy (minimumConsumption rates) \<and> cur < numval (minimumConsumption rates)
            then numval (minimumConsumption rates) else cur)"
  using assms by (simp add: unitConsumption_def Let_def)

lemma calculateLoaded_bills:
  "bills (calculateLoaded env d periodId c tv ta) =
     map (applyCommonArea (commonAreaCostPerUnit (calculateLoaded env d periodId c tv ta)) c)
       (concat (map (unitBills env (periodReadingsOf d periodId)
                       (getPreviousReadings d c (map (\<lambda>u. m_id (primaryMeter u)) (activeUnits d c)))
                       (getWaterRates env d))
                  (activeUnits d c)))"
  by (simp add: calculateLoaded_def Let_def finishCalculation_fields(3,4) runLoop_eq)

lemma calculateLoaded_anomalies:
  "set (concat (map (unitAnomalies env (periodReadingsOf d periodId)
                       (getPreviousReadings d c (map (\<lambda>u. m_id (primaryMeter u)) (activeUnits d c)))
                       (getWaterRates env d))
                  (activeUnits d c)))
     \<subseteq> set (anomalies (calculateLoaded env d periodId c tv ta))"
  using anomalies_finishCalculation[of "runLoop env (periodReadingsOf d periodId)
          (getPreviousReadings d c (map (\<lambda>u. m_id (primaryMeter u)) (activeUnits d c)))
          (getWaterRates env d) (activeUnits d c)" env c tv ta]
  by (simp add: calculateLoaded_def Let_def runLoop_eq)

lemma unit_bill_facts:
  assumes "unitBills env rs prev rates u = [b]"
  shows "unitId b = lu_id u" and "unitName b = lu_name u"
    and "\<exists>cr. find (\<lambda>r. r_meterId r = m_id (primaryMeter u)) rs = Some cr
              \<and> currentReading b = r_value cr"
    and "previousReading b = previousValueOf prev (m_id (primaryMeter u))"
    and "consumption b = unitConsumption rates (currentReading b) (previousReading b)"
    and "individualCost b = calculateIndividualCost (consumption b) rates"
    and "unitAnomalies env rs prev rates u =
               (if currentReading b - previousReading b < 0
                then [replacementMsg env u (previousReading b) (currentReading b)] else [])"
proof -
  from assms unitBills_cases[of env rs prev rates u] have "hasReading rs u" by auto
  then obtain cr where cr: "find (\<lambda>r. r_meterId r = m_id (primaryMeter u)) rs = Some cr"
    by (auto simp: hasReading_def)
  from unitBills_present[OF cr, of env prev rates] assms cr
  show "unitId b = lu_id u" "unitName b = lu_name u"
    "\<exists>cr. find (\<lambda>r. r_meterId r = m_id (primaryMeter u)) rs = Some cr
              \<and> currentReading b = r_value cr"
    "previousReading b = previousValueOf prev (m_id (primaryMeter u))"
    "consumption b = unitConsumption rates (currentReading b) (previousReading b)"
    "individualCost b = calculateIndividualCost (consumption b) rates"
    "unitAnomalies env rs prev rates u =
               (if currentReading b - previousReading b < 0
                then [replacementMsg env u (previousReading b) (currentReading b)] else [])"
    by auto
qed

lemma applyCommonArea_unitName: "unitName (applyCommonArea pu c b) = unitName b"
  by (simp add: applyCommonArea_def applyExtraCharges_def getExtraCharges_def Let_def)

lemma bill_origin:
  assumes "b \<in> set (bills (calculateLoaded env d periodId c tv ta))"
  obtains u b0 where "u \<in> set (activeUnits d c)"
    and "unitBills env (periodReadingsOf d periodId)
           (getPreviousReadings d c (map (\<lambda>u. m_id (primaryMeter u)) (activeUnits d c)))
           (getWaterRates env d) u = [b0]"
    and "b = applyCommonArea (commonAreaCostPerUnit (calculateLoaded env d periodId c tv ta)) c b0"
proof -
  let ?ub = "unitBills env (periodReadingsOf d periodId)
           (getPreviousReadings d c (map (\<lambda>u. m_id (primaryMeter u)) (activeUnits d c)))
           (getWaterRates env d)"
  from assms obtain u b0 where u: "u \<in> set (activeUnits d c)" and b0: "b0 \<in> set (?ub u)"
    and b: "b = applyCommonArea (commonAreaCostPerUnit (calculateLoaded env d periodId c tv ta)) c b0"
    unfolding calculateLoaded_bills by auto
  from b0 unitBills_cases[of env "periodReadingsOf d periodId"
      "getPreviousReadings d c (map (\<lambda>u. m_id (primaryMeter u)) (activeUnits d c))"
      "getWaterRates env d" u]
  have "?ub u = [b0]" by auto
  with u b show thesis by (intro that[of u b0])
qed

text \<open>
  Claim C6, amended. For every bill of a result whose current reading is below its previous
  reading, the consumption is the current reading itself, raised to the minimum consumption
  when one is configured and the current reading is below it; the anomalies contain the
  message \<^verbatim>\<open>Meter replacement detected for unit <name>: previous=<p>, current=<c>\<close> for that
  unit; and the batch goes on: the bills are those of all active units that have a reading,
  in order.
\<close>

theorem meter_rollover_policy:
  assumes "calculatePeriodBills env d periodId = Inr res"
    and "find (\<lambda>p. p_id p = periodId) (periods d) = Some period"
  shows "(\<forall>b \<in> set (bills res). currentReading b < previousReading b \<longrightarrow>
            consumption b =
              (if truthy (minimumConsumption (getWaterRates env d))
                  \<and> currentReading b < numval (minimumConsumption (getWaterRates env d))
               then numval (minimumConsumption (getWaterRates env d)) else currentReading b)
          \<and> ''Meter replacement detected for unit '' @ unitName b @ '': previous=''
               @ numToString env (previousReading b) @ '', current=''
               @ numToString env (currentReading b) \<in> set (anomalies res))
       \<and> map unitId (bills res)
           = map lu_id (filter (hasReading (periodReadingsOf d periodId))
                          (activeUnits d (p_condominiumId period)))"
proof -
  from assms(1) obtain period' tv ta where
    p: "find (\<lambda>p. p_id p = periodId) (periods d) = Some period'"
    and res: "res = calculateLoaded env d periodId (p_condominiumId period') tv ta"
    by (rule calculatePeriodBills_InrD)
  from p assms(2) have pe: "period' = period" by simp
  let ?c = "p_condominiumId period"
  let ?rates = "getWaterRates env d"
  have ids: "map unitId (bills res)
           = map lu_id (filter (hasReading (periodReadingsOf d periodId)) (activeUnits d ?c))"
    unfolding res pe calculateLoaded_bills
    by (simp add: o_def applyCommonArea_fields(1) unitIds_of_bills)
  have "consumption b =
              (if truthy (minimumConsumption ?rates) \<and> currentReading b < numval (minimumConsumption ?rates)
               then numval (minimumConsumption ?rates) else currentReading b)
          \<and> ''Meter replacement detected for unit '' @ unitName b @ '': previous=''
               @ numToString env (previousReading b) @ '', current=''
               @ numToString env (currentReading b) \<in> set (anomalies res)"
    if b: "b \<in> set (bills res)" and lt: "currentReading b < previousReading b" for b
  proof -
    from b obtain u b0 where u: "u \<in> set (activeUnits d ?c)"
      and ub: "unitBills env (periodReadingsOf d periodId)
           (getPreviousReadings d ?c (map (\<lambda>u. m_id (primaryMeter u)) (activeUnits d ?c))) ?rates u = [b0]"
      and bb: "b = applyCommonArea (commonAreaCostPerUnit res) ?c b0"
      unfolding res pe by (rule bill_origin)
    have eqs: "currentReading b = currentReading b0" "previousReading b = previousReading b0"
      "consumption b = consumption b0" "unitName b = unitName b0"
      by (simp_all add: bb applyCommonArea_fields applyCommonArea_unitName)
    from lt have lt0: "currentReading b0 < previousReading b0" by (simp add: eqs)
    have c: "consumption b0 = unitConsumption ?rates (currentReading b0) (previousReading b0)"
      using ub by (rule unit_bill_facts(5))
    have n: "unitName b0 = lu_name u" using ub by (rule unit_bill_facts(2))
    have "replacementMsg env u (previousReading b0) (currentReading b0)
            \<in> set (unitAnomalies env (periodReadingsOf d periodId)
           (getPreviousReadings d ?c (map (\<lambda>u. m_id (primaryMeter u)) (activeUnits d ?c))) ?rates u)"
      using unit_bill_facts(7)[OF ub] lt0 by simp
    with u have "replacementMsg env u (previousReading b0) (currentReading b0) \<in> set (anomalies res)"
      using calculateLoaded_anomalies[of env d periodId ?c tv ta] unfolding res pe by auto
    then show ?thesis
      by (simp add: eqs c unitConsumption_rollover[OF lt0] replacementMsg_def n)
  qed
  with ids show ?thesis by blast
qed

text \<open>
  Claim C6 as stated fails when a minimum consumption is configured. With
  \<^verbatim>\<open>water_minimum_consumption = 20\<close>, a previous reading of 500 and a current reading of 10,
  the billed consumption of the unit is 20, not the current value 10.
\<close>

theorem rollover_minimum_counterexample:
  "(case calculatePeriodBills demo_js
           (demo_db [cfg ''water_minimum_consumption'' ''20''] rollover_readings) ''p2'' of
      Inl e \<Rightarrow> False
    | Inr res \<Rightarrow> map previousReading (bills res) = [500, 50]
                 \<and> map currentReading (bills res) = [10, 54]
                 \<and> map consumption (bills res) = [20, 20])"
  by code_simp

theorem meter_rollover_policy_witness:
  "\<exists>res. calculatePeriodBills demo_js (demo_db [] rollover_readings) ''p2'' = Inr res
     \<and> map previousReading (bills res) = [500, 50]
     \<and> map currentReading (bills res) = [10, 54]
     \<and> map consumption (bills res) = [10, 4]
     \<and> ''Meter replacement detected for unit 101: previous=500, current=10'' \<in> set (anomalies res)"
proof -
  let ?d = "demo_db [] rollover_readings"
  have "case calculatePeriodBills demo_js ?d ''p2'' of Inl e \<Rightarrow> False
        | Inr res \<Rightarrow> map previousReading (bills res) = [500, 50]
                     \<and> map currentReading (bills res) = [10, 54]
                     \<and> map unitName (bills res) = [''101'', ''102'']"
    by code_simp
  then obtain res where ev: "calculatePeriodBills demo_js ?d ''p2'' = Inr res"
    and s: "map previousReading (bills res) = [500, 50]"
      "map currentReading (bills res) = [10, 54]" "map unitName (bills res) = [''101'', ''102'']"
    by (cases "calculatePeriodBills demo_js ?d ''p2''") auto
  have f: "find (\<lambda>p. p_id p = ''p2'') (periods ?d)
             = Some \<lparr> p_id = ''p2'', p_condominiumId = ''c1'', p_status = CALCULATING,
                      p_totalVolume = Some 25, p_totalAmount = Some 50,
                      p_endDate = None, p_createdAt = 101 \<rparr>"
    by (simp add: demo_db_def)
  have m: "minimumConsumption (getWaterRates demo_js ?d) = None"
    by (simp add: getWaterRates_def configMap_lookup demo_db_def)
  from s obtain b1 b2 where bs: "bills res = [b1, b2]"
    and b1: "previousReading b1 = 500" "currentReading b1 = 10" "unitName b1 = ''101''"
    and b2: "previousReading b2 = 50" "currentReading b2 = 54"
    by (auto simp: map_eq_Cons_conv)
  from meter_rollover_policy[OF ev f]
  have "\<forall>b \<in> set (bills res). currentReading b < previousReading b \<longrightarrow>
            consumption b = currentReading b
          \<and> ''Meter replacement detected for unit '' @ unitName b @ '': previous=''
               @ numToString demo_js (previousReading b) @ '', current=''
               @ numToString demo_js (currentReading b) \<in> set (anomalies res)"
    by (simp add: m)
  then have r1: "consumption b1 = 10"
    and a: "''Meter replacement detected for unit 101: previous=500, current=10'' \<in> set (anomalies res)"
    by (simp_all add: bs b1 demo_js_def)
  have "case calculatePeriodBills demo_js ?d ''p2'' of Inl e \<Rightarrow> False
        | Inr res \<Rightarrow> map consumption (tl (bills res)) = [4]"
    by code_simp
  with ev have "map consumption (tl (bills res)) = [4]" by simp
  with bs r1 have "map consumption (bills res) = [10, 4]" by simp
  with ev s a show ?thesis by (intro exI[of _ res]) simp
qed

section \<open>Extra charges\<close>





section \<open>The previous-reading query\<close>

lemma keys_distinctOn:
  "distinct (map key (distinctOn key seen xs)) \<and> key ` set (distinctOn key seen xs) \<inter> set seen = {}"
proof (induction xs arbitrary: seen)
  case Nil
  show ?case by simp
next
  case (Cons x xs)
  from Cons[of seen] Cons[of "key x # seen"] show ?case by auto
qed

lemma find_distinctOn:
  "find (\<lambda>r. key r = m) (distinctOn key seen xs)
     = (if m \<in> set seen then None else find (\<lambda>r. key r = m) xs)"
  by (induction xs arbitrary: seen) auto

lemma map_of_rev_distinct:
  "distinct (map fst ps) \<Longrightarrow> map_of (rev ps) k = map_of ps k"
proof (induction ps)
  case Nil
  show ?case by simp
next
  case (Cons p ps)
  obtain a b where p: "p = (a, b)" by (cases p)
  from Cons.prems p have d: "distinct (map fst ps)" and n: "map_of ps a = None"
    by (auto simp: map_of_eq_None_iff)
  have ih: "map_of (rev ps) k = map_of ps k" using Cons.IH d by simp
  show ?case
    by (cases "k = a") (use n ih in \<open>simp_all add: p map_add_def split: option.splits\<close>)
qed

lemma map_of_keyed:
  "map_of (map (\<lambda>r. (key r, f r)) ys) m = map_option f (find (\<lambda>r. key r = m) ys)"
  by (induction ys) auto

lemma new_Map_distinctOn:
  "new_Map (map (\<lambda>r. (key r, f r)) (distinctOn key [] xs)) m
     = map_option f (find (\<lambda>r. key r = m) xs)"
proof -
  have "distinct (map fst (map (\<lambda>r. (key r, f r)) (distinctOn key [] xs)))"
    using keys_distinctOn[of key "[]" xs] by (simp add: o_def)
  then show ?thesis
    by (simp add: new_Map_map_of map_of_rev_distinct map_of_keyed find_distinctOn)
qed

lemma find_as_filter:
  "find P xs = (case filter P xs of [] \<Rightarrow> None | x # _ \<Rightarrow> Some x)"
  by (induction xs) auto

lemma find_sorted_filter:
  "find (\<lambda>r. key r = m) (sort_key g (filter (\<lambda>r. key r \<in> S \<and> Q r) xs))
     = (if m \<in> S then find (\<lambda>r. key r = m) (sort_key g (filter Q xs)) else None)"
proof -
  have "filter (\<lambda>r. key r = m) (filter (\<lambda>r. key r \<in> S \<and> Q r) xs)
          = (if m \<in> S then filter (\<lambda>r. key r = m) (filter Q xs) else [])"
    by (induction xs) auto
  then show ?thesis
    by (simp add: find_as_filter[of _ "sort_key g _"] filter_sort)
qed

text \<open>The readings a previous value may come from: those of the meter whose period is a
  CLOSED period of the condominium.\<close>

lemma getPreviousReadings_lookup:
  "getPreviousReadings d c ids m =
     (if m \<in> set ids
      then (case sort_key (\<lambda>r. - r_createdAt r)
                   (filter (\<lambda>r. r_meterId r = m \<and> periodMatches d c r) (readings d)) of
              [] \<Rightarrow> None
            | r # _ \<Rightarrow> Some \<lparr> pr_value = r_value r, pr_periodId = r_periodId r \<rparr>)
      else None)"
proof -
  have "filter (\<lambda>r. r_meterId r = m) (filter (periodMatches d c) (readings d))
          = filter (\<lambda>r. r_meterId r = m \<and> periodMatches d c r) (readings d)"
    by (simp add: conj_commute)
  then show ?thesis
    unfolding getPreviousReadings_def previousReadingRows_def new_Map_distinctOn find_sorted_filter
    by (simp add: find_as_filter[of _ "sort_key _ _"] filter_sort split: list.splits)
qed

lemma sort_key_head:
  assumes "sort_key g xs = y # ys"
  shows "y \<in> set xs \<and> (\<forall>x \<in> set xs. g y \<le> g x)"
proof -
  have s: "sorted (map g (y # ys))" using sorted_sort_key[of g xs] assms by simp
  have e: "set xs = set (y # ys)" using set_sort[of g xs] assms by simp
  from s e show ?thesis by auto
qed

lemma previousValueOf_lookup:
  fixes d :: db and c m :: string
  assumes "m \<in> set ids"
  defines "E \<equiv> filter (\<lambda>r. r_meterId r = m \<and> periodMatches d c r) (readings d)"
  shows "(E = [] \<and> previousValueOf (getPreviousReadings d c ids) m = 0)
       \<or> (\<exists>r \<in> set E. previousValueOf (getPreviousReadings d c ids) m = r_value r
            \<and> (\<forall>r' \<in> set E. r_createdAt r' \<le> r_createdAt r))"
proof (cases "sort_key (\<lambda>r. - r_createdAt r) E")
  case Nil
  then have "E = []" using length_sort[of "\<lambda>r. - r_createdAt r" E] by simp
  with assms(1) show ?thesis
    by (simp add: previousValueOf_def getPreviousReadings_lookup E_def[symmetric])
next
  case (Cons r rs)
  from sort_key_head[OF Cons] have r: "r \<in> set E" "\<forall>r' \<in> set E. r_createdAt r' \<le> r_createdAt r"
    by auto
  have "previousValueOf (getPreviousReadings d c ids) m = r_value r"
    using assms(1) Cons by (simp add: previousValueOf_def getPreviousReadings_lookup E_def[symmetric])
  with r show ?thesis by blast
qed

text \<open>
  Claim C5 as stated fails. The meter has a reading of 40 in the older CLOSED period and none
  in the most recent CLOSED period. By the claim its previous value is zero; the code bills
  the unit with the previous reading 40 of the older period.
\<close>

theorem previous_reading_older_period_counterexample:
  "(case calculatePeriodBills demo_js skipped_period_db ''p2'' of
      Inl e \<Rightarrow> False
    | Inr res \<Rightarrow> map previousReading (bills res) = [40] \<and> map consumption (bills res) = [15])
   \<and> map_option p_id (spec_mostRecentClosedPeriod skipped_period_db ''c1'') = Some ''p1''
   \<and> spec_previousValue skipped_period_db ''c1'' ''m1'' = 0"
  by code_simp

text \<open>
  Claim C5, amended. Every bill belongs to an active unit, and its previous reading is the
  value of the most recently created reading of that unit's primary meter among the readings
  of all CLOSED periods of the same condominium (not only of the most recent such period); when
  the meter has no reading in any CLOSED period of the condominium, the previous value is zero.
\<close>

theorem previous_reading_lookup:
  assumes "calculatePeriodBills env d periodId = Inr res"
    and "find (\<lambda>p. p_id p = periodId) (periods d) = Some period"
    and "b \<in> set (bills res)"
  shows "\<exists>u \<in> set (activeUnits d (p_condominiumId period)). unitId b = lu_id u \<and>
           (filter (\<lambda>r. r_meterId r = m_id (primaryMeter u)
                        \<and> periodMatches d (p_condominiumId period) r) (readings d) = []
              \<and> previousReading b = 0
          \<or> (\<exists>r \<in> set (filter (\<lambda>r. r_meterId r = m_id (primaryMeter u)
                                   \<and> periodMatches d (p_condominiumId period) r) (readings d)).
                previousReading b = r_value r
              \<and> (\<forall>r' \<in> set (filter (\<lambda>r. r_meterId r = m_id (primaryMeter u)
                                   \<and> periodMatches d (p_condominiumId period) r) (readings d)).
                    r_createdAt r' \<le> r_createdAt r)))"
proof -
  from assms(1) obtain period' tv ta where
    p: "find (\<lambda>p. p_id p = periodId) (periods d) = Some period'"
    and res: "res = calculateLoaded env d periodId (p_condominiumId period') tv ta"
    by (rule calculatePeriodBills_InrD)
  from p assms(2) have pe: "period' = period" by simp
  let ?c = "p_condominiumId period"
  let ?ids = "map (\<lambda>u. m_id (primaryMeter u)) (activeUnits d ?c)"
  from assms(3) obtain u b0 where u: "u \<in> set (activeUnits d ?c)"
    and ub: "unitBills env (periodReadingsOf d periodId) (getPreviousReadings d ?c ?ids)
               (getWaterRates env d) u = [b0]"
    and bb: "b = applyCommonArea (commonAreaCostPerUnit res) ?c b0"
    unfolding res pe by (rule bill_origin)
  have i: "unitId b = lu_id u"
    using unit_bill_facts(1)[OF ub] by (simp add: bb applyCommonArea_fields)
  have pv: "previousReading b = previousValueOf (getPreviousReadings d ?c ?ids) (m_id (primaryMeter u))"
    using unit_bill_facts(4)[OF ub] by (simp add: bb applyCommonArea_fields)
  from u have m: "m_id (primaryMeter u) \<in> set ?ids" by auto
  from previousValueOf_lookup[OF m, of d ?c] u i show ?thesis
    unfolding pv by blast
qed

theorem previous_reading_lookup_witness:
  "\<exists>res. calculatePeriodBills demo_js skipped_period_db ''p2'' = Inr res
     \<and> map unitId (bills res) = [''u1''] \<and> map previousReading (bills res) = [40]"
proof -
  let ?d = "skipped_period_db"
  have "case calculatePeriodBills demo_js ?d ''p2'' of Inl e \<Rightarrow> False
        | Inr res \<Rightarrow> map unitId (bills res) = [''u1'']"
    by code_simp
  then obtain res where ev: "calculatePeriodBills demo_js ?d ''p2'' = Inr res"
    and s: "map unitId (bills res) = [''u1'']"
    by (cases "calculatePeriodBills demo_js ?d ''p2''") auto
  then obtain b where bs: "bills res = [b]" by (auto simp: map_eq_Cons_conv)
  have f: "find (\<lambda>p. p_id p = ''p2'') (periods ?d)
             = Some \<lparr> p_id = ''p2'', p_condominiumId = ''c1'', p_status = CALCULATING,
                      p_totalVolume = Some 25, p_totalAmount = Some 50,
                      p_endDate = None, p_createdAt = 101 \<rparr>"
    by (simp add: skipped_period_db_def)
  have a: "map (\<lambda>u. m_id (primaryMeter u)) (activeUnits ?d ''c1'') = [''m1'']"
    by code_simp
  have e: "filter (\<lambda>r. r_meterId r = ''m1'' \<and> periodMatches ?d ''c1'' r) (readings ?d)
             = [rd ''m1'' ''p0'' 40 10]"
    by code_simp
  have c: "p_condominiumId \<lparr> p_id = ''p2'', p_condominiumId = ''c1'', p_status = CALCULATING,
                      p_totalVolume = Some 25, p_totalAmount = Some 50,
                      p_endDate = None, p_createdAt = 101 \<rparr> = ''c1''"
    by simp
  have "b \<in> set (bills res)" by (simp add: bs)
  from previous_reading_lookup[OF ev f this, unfolded c]
  obtain u where u: "u \<in> set (activeUnits ?d ''c1'')"
    and t: "filter (\<lambda>r. r_meterId r = m_id (primaryMeter u) \<and> periodMatches ?d ''c1'' r)
              (readings ?d) = [] \<and> previousReading b = 0
          \<or> (\<exists>r \<in> set (filter (\<lambda>r. r_meterId r = m_id (primaryMeter u)
                                   \<and> periodMatches ?d ''c1'' r) (readings ?d)).
                previousReading b = r_value r
              \<and> (\<forall>r' \<in> set (filter (\<lambda>r. r_meterId r = m_id (primaryMeter u)
                                   \<and> periodMatches ?d ''c1'' r) (readings ?d)).
                    r_createdAt r' \<le> r_createdAt r))"
    by blast
  from u a have "m_id (primaryMeter u) = ''m1''" by auto
  from t[unfolded this e] have "previousReading b = 40"
    by (simp add: rd_def)
  with ev s bs show ?thesis by (intro exI[of _ res]) simp
qed

section \<open>A unit without a reading\<close>

lemma activeUnits_withoutUnit:
  "activeUnits (withoutUnit uid d) c = filter (\<lambda>x. lu_id x \<noteq> uid) (activeUnits d c)"
  by (simp add: activeUnits_def unitsOfBlock_def withoutUnit_def filter_concat filter_map o_def
        conj_commute conj_left_commute cong: filter_cong)

lemma withoutUnit_same:
  "periods (withoutUnit uid d) = periods d"
  "getWaterRates env (withoutUnit uid d) = getWaterRates env d"
  "periodReadingsOf (withoutUnit uid d) p = periodReadingsOf d p"
  "periodMatches (withoutUnit uid d) c = periodMatches d c"
  "readings (withoutUnit uid d) = readings d"
  by (simp_all add: withoutUnit_def getWaterRates_def configMap_def periodReadingsOf_def
        periodMatches_def fun_eq_iff)

lemma unitBills_prev_cong:
  assumes "previousValueOf prev (m_id (primaryMeter x)) = previousValueOf prev' (m_id (primaryMeter x))"
  shows "unitBills env rs prev rates x = unitBills env rs prev' rates x"
  using assms by (simp add: unitBills_def processUnit_def Let_def split: option.splits)

lemma concat_map_filter_empty:
  assumes "\<And>x. x \<in> set xs \<Longrightarrow> \<not> P x \<Longrightarrow> f x = []"
  shows "concat (map f (filter P xs)) = concat (map f xs)"
  using assms by (induction xs) auto

lemma finishCalculation_same_bills:
  assumes "ls_bills st' = ls_bills st" and "ls_total st' = ls_total st"
  shows "bills (finishCalculation env c tv ta st') = bills (finishCalculation env c tv ta st)"
    and "totalIndividualConsumption (finishCalculation env c tv ta st')
           = totalIndividualConsumption (finishCalculation env c tv ta st)"
    and "commonAreaConsumption (finishCalculation env c tv ta st')
           = commonAreaConsumption (finishCalculation env c tv ta st)"
    and "commonAreaCostPerUnit (finishCalculation env c tv ta st')
           = commonAreaCostPerUnit (finishCalculation env c tv ta st)"
  using assms by (simp_all add: finishCalculation_def Let_def)

lemma bills_withoutUnit:
  fixes env :: js and d :: db and c periodId :: string
  assumes u: "u \<in> set (activeUnits d c)"
    and nr: "\<not> hasReading (periodReadingsOf d periodId) u"
    and dist: "distinct (map lu_id (activeUnits d c))"
  defines "st \<equiv> runLoop env (periodReadingsOf d periodId)
                   (getPreviousReadings d c (map (\<lambda>u. m_id (primaryMeter u)) (activeUnits d c)))
                   (getWaterRates env d) (activeUnits d c)"
    and "st' \<equiv> runLoop env (periodReadingsOf d periodId)
                   (getPreviousReadings (withoutUnit (lu_id u) d) c
                      (map (\<lambda>u. m_id (primaryMeter u)) (activeUnits (withoutUnit (lu_id u) d) c)))
                   (getWaterRates env d) (activeUnits (withoutUnit (lu_id u) d) c)"
  shows "ls_bills st' = ls_bills st \<and> ls_total st' = ls_total st"
proof -
  let ?us = "activeUnits d c"
  let ?us' = "filter (\<lambda>x. lu_id x \<noteq> lu_id u) ?us"
  let ?rs = "periodReadingsOf d periodId"
  let ?prev = "getPreviousReadings d c (map (\<lambda>u. m_id (primaryMeter u)) ?us)"
  let ?prev' = "getPreviousReadings (withoutUnit (lu_id u) d) c (map (\<lambda>u. m_id (primaryMeter u)) ?us')"
  let ?rates = "getWaterRates env d"
  have same: "unitBills env ?rs ?prev' ?rates x = unitBills env ?rs ?prev ?rates x" if "x \<in> set ?us'" for x
  proof (rule unitBills_prev_cong)
    from that have "m_id (primaryMeter x) \<in> set (map (\<lambda>u. m_id (primaryMeter u)) ?us')"
      and "m_id (primaryMeter x) \<in> set (map (\<lambda>u. m_id (primaryMeter u)) ?us)"
      by auto
    then have "?prev' (m_id (primaryMeter x)) = ?prev (m_id (primaryMeter x))"
      by (simp only: getPreviousReadings_lookup withoutUnit_same if_True)
    then show "previousValueOf ?prev' (m_id (primaryMeter x)) = previousValueOf ?prev (m_id (primaryMeter x))"
      by (simp add: previousValueOf_def)
  qed
  have gone: "unitBills env ?rs ?prev ?rates x = []" if "x \<in> set ?us" "\<not> lu_id x \<noteq> lu_id u" for x
  proof -
    from that u dist have "x = u" by (auto simp: distinct_map inj_on_def)
    with nr show ?thesis by (simp add: unitBills_missing)
  qed
  have "concat (map (unitBills env ?rs ?prev' ?rates) ?us')
          = concat (map (unitBills env ?rs ?prev ?rates) ?us')"
    using same by (intro arg_cong[where f=concat] map_cong) auto
  also have "\<dots> = concat (map (unitBills env ?rs ?prev ?rates) ?us)"
    using gone by (rule concat_map_filter_empty)
  finally show ?thesis
    by (simp add: st_def st'_def runLoop_eq activeUnits_withoutUnit)
qed

lemma unitsOfBlock_ids:
  "map lu_id (filter A (unitsOfBlock d b))
     = map u_id (filter (\<lambda>x. A \<lparr> lu_id = u_id x, lu_name = u_name x, lu_isActive = u_isActive x,
                lu_blockName = b_name b, lu_residentName = u_resident x,
                lu_meters = filter (\<lambda>m. m_unitId m = u_id x \<and> m_isActive m \<and> m_type m = WATER)
                              (meters d) \<rparr>)
          (filter (\<lambda>x. u_blockId x = b_id b \<and> u_isActive x) (units d)))"
  by (simp add: unitsOfBlock_def filter_map o_def)

lemma activeUnits_ids_distinct:
  assumes du: "distinct (map u_id (units d))" and db: "distinct (map b_id (blocks d))"
  shows "distinct (map lu_id (activeUnits d c))"
proof -
  define g where "g b = map lu_id (filter (\<lambda>u. lu_isActive u \<and> length (lu_meters u) > 0)
                                    (unitsOfBlock d b))" for b
  have gd: "distinct (g b)" for b
    unfolding g_def unitsOfBlock_ids using du by (intro distinct_map_filter)
  have gs: "\<exists>x \<in> set (units d). u_id x = i \<and> u_blockId x = b_id b" if "i \<in> set (g b)" for i b
    using that unfolding g_def unitsOfBlock_ids by auto
  have cat: "distinct (concat (map g bs))" if "distinct (map b_id bs)" for bs
    using that
  proof (induction bs)
    case Nil
    show ?case by simp
  next
    case (Cons b bs)
    have "set (g b) \<inter> set (concat (map g bs)) = {}"
    proof (rule ccontr)
      assume "set (g b) \<inter> set (concat (map g bs)) \<noteq> {}"
      then obtain i b' where i: "i \<in> set (g b)" and b': "b' \<in> set bs" and i': "i \<in> set (g b')"
        by auto
      from gs[OF i] gs[OF i'] obtain x x' where
        x: "x \<in> set (units d)" "u_id x = i" "u_blockId x = b_id b"
        and x': "x' \<in> set (units d)" "u_id x' = i" "u_blockId x' = b_id b'"
        by blast
      from du x x' have "x = x'" by (auto simp: distinct_map inj_on_def)
      with x x' have "b_id b = b_id b'" by simp
      with b' Cons.prems show False by auto
    qed
    with Cons gd show ?case by simp
  qed
  have "map lu_id (activeUnits d c) = concat (map g (filter (\<lambda>b. b_condominiumId b = c) (blocks d)))"
    unfolding g_def by (simp add: activeUnits_def map_concat o_def)
  moreover have "distinct (map b_id (filter (\<lambda>b. b_condominiumId b = c) (blocks d)))"
    using db by (rule distinct_map_filter)
  ultimately show ?thesis using cat by simp
qed

text \<open>
  Claim C9. Let the period pass the guards of the calculation, and let an active unit have no
  reading for the period (unit and block identifiers being keys of their tables). Then the
  calculation returns a result, not an error; no bill of the result carries that unit's id;
  the anomalies contain \<^verbatim>\<open>Missing reading for unit <name> in block <block>\<close>; and the bills
  (hence consumption, individual cost, common-area cost and total cost of every other unit)
  and the totals are exactly those of the calculation on the database without that unit.
\<close>

theorem missing_reading_excluded:
  assumes "find (\<lambda>p. p_id p = periodId) (periods d) = Some period"
    and "p_status period = CALCULATING"
    and "p_totalVolume period = Some tv" and "tv \<noteq> 0"
    and "p_totalAmount period = Some ta" and "ta \<noteq> 0"
    and "distinct (map u_id (units d))" and "distinct (map b_id (blocks d))"
    and "u \<in> set (activeUnits d (p_condominiumId period))"
    and "\<not> hasReading (periodReadingsOf d periodId) u"
  shows "\<exists>res res'. calculatePeriodBills env d periodId = Inr res
           \<and> calculatePeriodBills env (withoutUnit (lu_id u) d) periodId = Inr res'
           \<and> (\<forall>b \<in> set (bills res). unitId b \<noteq> lu_id u)
           \<and> missingMsg u \<in> set (anomalies res)
           \<and> bills res = bills res'
           \<and> totalIndividualConsumption res = totalIndividualConsumption res'
           \<and> commonAreaConsumption res = commonAreaConsumption res'
           \<and> commonAreaCostPerUnit res = commonAreaCostPerUnit res'"
proof -
  let ?c = "p_condominiumId period"
  let ?d' = "withoutUnit (lu_id u) d"
  let ?res = "calculateLoaded env d periodId ?c tv ta"
  let ?res' = "calculateLoaded env ?d' periodId ?c tv ta"
  let ?rs = "periodReadingsOf d periodId"
  have r: "calculatePeriodBills env d periodId = Inr ?res"
    using assms(1-6) by (simp add: calculatePeriodBills_def)
  have r': "calculatePeriodBills env ?d' periodId = Inr ?res'"
    using assms(1-6) by (simp add: calculatePeriodBills_def withoutUnit_same(1))
  have dist: "distinct (map lu_id (activeUnits d ?c))"
    using assms(7,8) by (rule activeUnits_ids_distinct)
  have ids: "map unitId (bills ?res) = map lu_id (filter (hasReading ?rs) (activeUnits d ?c))"
    unfolding calculateLoaded_bills by (simp add: o_def applyCommonArea_fields(1) unitIds_of_bills)
  have nob: "unitId b \<noteq> lu_id u" if "b \<in> set (bills ?res)" for b
  proof
    assume "unitId b = lu_id u"
    with that have "lu_id u \<in> set (map unitId (bills ?res))" by force
    then obtain x where x: "x \<in> set (activeUnits d ?c)" "hasReading ?rs x" "lu_id x = lu_id u"
      unfolding ids by auto
    with assms(9) dist have "x = u" by (auto simp: distinct_map inj_on_def)
    with x assms(10) show False by simp
  qed
  have "missingMsg u \<in> set (unitAnomalies env ?rs
                       (getPreviousReadings d ?c (map (\<lambda>u. m_id (primaryMeter u)) (activeUnits d ?c)))
                       (getWaterRates env d) u)"
    by (simp add: unitBills_missing(2)[OF assms(10)])
  with assms(9)
  have "missingMsg u \<in> set (concat (map (unitAnomalies env ?rs
                       (getPreviousReadings d ?c (map (\<lambda>u. m_id (primaryMeter u)) (activeUnits d ?c)))
                       (getWaterRates env d)) (activeUnits d ?c)))"
    by auto
  then have an: "missingMsg u \<in> set (anomalies ?res)"
    using calculateLoaded_anomalies[of env d periodId ?c tv ta] by blast
  note same = bills_withoutUnit[OF assms(9,10) dist, of env]
  from same have sb: "ls_bills (runLoop env ?rs
                   (getPreviousReadings d ?c (map (\<lambda>u. m_id (primaryMeter u)) (activeUnits d ?c)))
                   (getWaterRates env d) (activeUnits d ?c))
          = ls_bills (runLoop env ?rs
                   (getPreviousReadings ?d' ?c (map (\<lambda>u. m_id (primaryMeter u)) (activeUnits ?d' ?c)))
                   (getWaterRates env d) (activeUnits ?d' ?c))"
    and st: "ls_total (runLoop env ?rs
                   (getPreviousReadings d ?c (map (\<lambda>u. m_id (primaryMeter u)) (activeUnits d ?c)))
                   (getWaterRates env d) (activeUnits d ?c))
          = ls_total (runLoop env ?rs
                   (getPreviousReadings ?d' ?c (map (\<lambda>u. m_id (primaryMeter u)) (activeUnits ?d' ?c)))
                   (getWaterRates env d) (activeUnits ?d' ?c))"
    by simp_all
  have eqs: "bills ?res = bills ?res'"
    "totalIndividualConsumption ?res = totalIndividualConsumption ?res'"
    "commonAreaConsumption ?res = commonAreaConsumption ?res'"
    "commonAreaCostPerUnit ?res = commonAreaCostPerUnit ?res'"
    unfolding calculateLoaded_def Let_def withoutUnit_same
    by (rule finishCalculation_same_bills[OF sb st])+
  from r r' nob an eqs show ?thesis by (intro exI[of _ ?res] exI[of _ ?res']) simp
qed

theorem missing_reading_excluded_witness:
  "\<exists>res res'. calculatePeriodBills demo_js three_units_db ''p2'' = Inr res
     \<and> calculatePeriodBills demo_js (withoutUnit ''u3'' three_units_db) ''p2'' = Inr res'
     \<and> ''Missing reading for unit 103 in block A'' \<in> set (anomalies res)
     \<and> bills res = bills res'
     \<and> map unitId (bills res') = [''u1'', ''u2'']
     \<and> map totalCost (bills res') = [33.25, 16.75]"
proof -
  let ?d = "three_units_db"
  let ?p = "\<lparr> p_id = ''p2'', p_condominiumId = ''c1'', p_status = CALCULATING,
              p_totalVolume = Some 25, p_totalAmount = Some 50,
              p_endDate = None, p_createdAt = 101 \<rparr>"
  let ?u = "\<lparr> lu_id = ''u3'', lu_name = ''103'', lu_isActive = True, lu_blockName = ''A'',
              lu_residentName = None,
              lu_meters = [\<lparr> m_id = ''m3'', m_unitId = ''u3'', m_type = WATER, m_isActive = True \<rparr>] \<rparr>"
  have f: "find (\<lambda>p. p_id p = ''p2'') (periods ?d) = Some ?p"
    by (simp add: three_units_db_def demo_db_def)
  have g: "p_status ?p = CALCULATING" "p_totalVolume ?p = Some 25" "(25::real) \<noteq> 0"
    "p_totalAmount ?p = Some 50" "(50::real) \<noteq> 0"
    by simp_all
  have k: "distinct (map u_id (units ?d))" "distinct (map b_id (blocks ?d))"
    by (simp_all add: three_units_db_def demo_db_def)
  have u: "?u \<in> set (activeUnits ?d (p_condominiumId ?p))"
    by code_simp
  have n: "\<not> hasReading (periodReadingsOf ?d ''p2'') ?u"
    by code_simp
  from missing_reading_excluded[OF f g k u n, of demo_js]
  obtain res res' where ev: "calculatePeriodBills demo_js ?d ''p2'' = Inr res"
    and ev': "calculatePeriodBills demo_js (withoutUnit ''u3'' ?d) ''p2'' = Inr res'"
    and m: "missingMsg ?u \<in> set (anomalies res)"
    and b: "bills res = bills res'"
    by auto
  have "case calculatePeriodBills demo_js (withoutUnit ''u3'' ?d) ''p2'' of Inl e \<Rightarrow> False
        | Inr r \<Rightarrow> map unitId (bills r) = [''u1'', ''u2''] \<and> map totalCost (bills r) = [33.25, 16.75]"
    by code_simp
  with ev' have t: "map unitId (bills res') = [''u1'', ''u2'']"
    "map totalCost (bills res') = [33.25, 16.75]"
    by simp_all
  from m have "''Missing reading for unit 103 in block A'' \<in> set (anomalies res)"
    by (simp add: missingMsg_def orUnknown_def)
  with ev ev' b t show ?thesis by (intro exI[of _ res] exI[of _ res']) simp
qed

end
